theory Spec2Isabelle
  imports Main "HOL-Library.AList"
begin

section \<open>Data model of the federation layer\<close>

text \<open>
  The types of \<^verbatim>\<open>federation.ts\<close> and \<^verbatim>\<open>federation-storage.ts\<close>.
  A JavaScript \<^verbatim>\<open>Map\<close> is an association list in insertion order:
  \<^verbatim>\<open>set\<close> is \<^const>\<open>AList.update\<close> (replace in place, else append),
  \<^verbatim>\<open>delete\<close> is \<^const>\<open>AList.delete\<close>, \<^verbatim>\<open>get\<close> is \<^const>\<open>map_of\<close>.
  A \<^verbatim>\<open>Date\<close> is its number of milliseconds since the epoch; the ISO-8601 string
  of a persisted date is represented by the same number (fixed-width ISO strings order as
  their instants do). An optional field is an \<open>option\<close>. A field whose name is taken
  already carries a mark: \<open>instanceUri'\<close> is the target of a delivery attempt, \<open>oid\<close> the
  id of an outbox event, \<open>p_id\<close>, \<open>p_event\<close> and \<open>p_created\<close> are the fields of its persisted
  form, \<open>instLastError\<close> is the last error of an instance. Each call of the manager runs
  to its end before another starts.
\<close>

datatype TrustMode = Open | Allowlist | Blocklist | Closed

record InstanceTrust =
  mode :: TrustMode
  allowlist :: "string set"
  blocklist :: "string set"

record FederationConfig =
  enabled :: bool
  instanceUri :: string
  trust :: InstanceTrust
  signingKey :: "string option"

record RemoteInstance =
  uri :: string
  version :: string
  inbox :: "string option"
  outbox :: "string option"
  trustMode :: TrustMode
  lastSeen :: int
  instLastError :: "string option"

record PersistedRemoteInstance = RemoteInstance +
  isAllowed :: bool
  isBlocked :: bool

datatype EventType = PostCreated | PostDeleted | CommentCreated | CommentDeleted

text \<open>
  \<^verbatim>\<open>Omit<FederationEvent, 'signature'>\<close> is the event without its signature; the
  signed event extends it.
\<close>

record 'o UnsignedEvent =
  etype :: EventType
  origin :: string
  timestamp :: string
  object :: 'o

record 'o FederationEvent = "'o UnsignedEvent" +
  signature :: string

text \<open>
  The \<^verbatim>\<open>delivered\<close> set of an outbox event is a \<^verbatim>\<open>Set<string>\<close> that is
  turned into an array when persisted, so its insertion order is kept: a list.
\<close>

record 'o OutboxEvent =
  oid :: string
  event :: "'o FederationEvent"
  created :: int
  delivered :: "string list"

record 'o PersistedOutboxEvent =
  p_id :: string
  p_event :: "'o FederationEvent"
  p_created :: int
  deliveredTo :: "string list"

datatype DeliveryStatus = Pending | Delivered | Failed

record DeliveryAttempt =
  instanceUri' :: string
  eventId :: string
  attemptCount :: nat
  lastAttempt :: int
  nextAttempt :: int
  status :: DeliveryStatus
  lastError :: "string option"

record PersistedDeliveryAttempt = DeliveryAttempt +
  key :: string

text \<open>\<^verbatim>\<open>MemoryFederationStorage\<close>: three maps.\<close>

record 'o FederationStorage =
  instances :: "(string \<times> PersistedRemoteInstance) list"
  outbox' :: "(string \<times> 'o PersistedOutboxEvent) list"
  deliveryQueue' :: "(string \<times> PersistedDeliveryAttempt) list"

text \<open>
  A listener is a callback with an effect on the world outside the manager (\<open>'w\<close>); it
  returns the value it throws, if it throws.
\<close>

type_synonym ('o, 'w) listener = "'o FederationEvent \<Rightarrow> 'w \<Rightarrow> string option \<times> 'w"

record ('o, 'w) FederationManager =
  config :: FederationConfig
  knownInstances :: "(string \<times> RemoteInstance) list"
  outboxQueue :: "(string \<times> 'o OutboxEvent) list"
  outboxIdCounter :: nat
  eventListeners :: "('o, 'w) listener list"
  deliveryQueue :: "(string \<times> DeliveryAttempt) list"
  storage :: "'o FederationStorage option"

definition MAX_RETRY_ATTEMPTS :: nat where
  "MAX_RETRY_ATTEMPTS = 5"

definition RETRY_BACKOFF_MS :: "int list" where
  "RETRY_BACKOFF_MS = [1000, 5000, 30000, 120000, 600000]"

definition has :: "'k \<Rightarrow> ('k \<times> 'v) list \<Rightarrow> bool" where
  "has k m = (k \<in> fst ` set m)"

text \<open>JavaScript truthiness of an optional string: \<^verbatim>\<open>undefined\<close> and \<^verbatim>\<open>''\<close> are falsy.\<close>

fun truthy :: "string option \<Rightarrow> bool" where
  "truthy None = False"
| "truthy (Some s) = (s \<noteq> [])"

section \<open>The persistence port (MemoryFederationStorage)\<close>

definition emptyStorage :: "'o FederationStorage" where
  "emptyStorage = \<lparr>instances = [], outbox' = [], deliveryQueue' = []\<rparr>"

definition saveInstance :: "PersistedRemoteInstance \<Rightarrow> 'o FederationStorage \<Rightarrow> 'o FederationStorage" where
  "saveInstance inst s = s\<lparr>instances := AList.update (uri inst) inst (instances s)\<rparr>"

definition getInstances :: "'o FederationStorage \<Rightarrow> PersistedRemoteInstance list" where
  "getInstances s = map snd (instances s)"

definition saveOutboxEvent :: "'o PersistedOutboxEvent \<Rightarrow> 'o FederationStorage \<Rightarrow> 'o FederationStorage" where
  "saveOutboxEvent e s = s\<lparr>outbox' := AList.update (p_id e) e (outbox' s)\<rparr>"

text \<open>
  \<^verbatim>\<open>getOutboxEvents\<close> of the store: sorted by creation date (the sort of an array is
  stable, as \<^const>\<open>sort_key\<close> is), advanced past \<^verbatim>\<open>since\<close> only when that id is found,
  cut at \<^verbatim>\<open>limit || 100\<close>. \<^verbatim>\<open>slice(0, limit)\<close> with a negative limit drops that many
  from the end.
\<close>

fun findIndex :: "('a \<Rightarrow> bool) \<Rightarrow> 'a list \<Rightarrow> nat option" where
  "findIndex P [] = None"
| "findIndex P (x # xs) = (if P x then Some 0 else map_option Suc (findIndex P xs))"

definition slice0 :: "int \<Rightarrow> 'a list \<Rightarrow> 'a list" where
  "slice0 n xs = (if 0 \<le> n then take (nat n) xs else take (length xs - nat (- n)) xs)"

definition storeGetOutboxEvents ::
  "int option \<Rightarrow> string option \<Rightarrow> 'o FederationStorage \<Rightarrow> 'o PersistedOutboxEvent list" where
  "storeGetOutboxEvents limit since s =
     (let lim = (case limit of None \<Rightarrow> 100 | Some l \<Rightarrow> if l = 0 then 100 else l);
          events = sort_key p_created (map snd (outbox' s));
          events' = (if truthy since
                     then (case findIndex (\<lambda>e. Some (p_id e) = since) events of
                             None \<Rightarrow> events
                           | Some i \<Rightarrow> drop (Suc i) events)
                     else events)
      in slice0 lim events')"

definition saveDeliveryAttempt ::
  "PersistedDeliveryAttempt \<Rightarrow> 'o FederationStorage \<Rightarrow> 'o FederationStorage" where
  "saveDeliveryAttempt a s = s\<lparr>deliveryQueue' := AList.update (key a) a (deliveryQueue' s)\<rparr>"

definition getPendingDeliveries :: "int \<Rightarrow> 'o FederationStorage \<Rightarrow> PersistedDeliveryAttempt list" where
  "getPendingDeliveries beforeTime s =
     sort_key nextAttempt
       (filter (\<lambda>a. status a = Pending \<and> nextAttempt a \<le> beforeTime) (map snd (deliveryQueue' s)))"

definition deleteDeliveryAttempt :: "string \<Rightarrow> 'o FederationStorage \<Rightarrow> 'o FederationStorage" where
  "deleteDeliveryAttempt k s = s\<lparr>deliveryQueue' := AList.delete k (deliveryQueue' s)\<rparr>"

definition deleteOutboxEvent :: "string \<Rightarrow> 'o FederationStorage \<Rightarrow> 'o FederationStorage" where
  "deleteOutboxEvent i s = s\<lparr>outbox' := AList.delete i (outbox' s)\<rparr>"

section \<open>FederationManager: persistence helpers\<close>

definition persistInstance ::
  "RemoteInstance \<Rightarrow> ('o, 'w) FederationManager \<Rightarrow> ('o, 'w) FederationManager" where
  "persistInstance inst m =
     (case storage m of
        None \<Rightarrow> m
      | Some s \<Rightarrow> m\<lparr>storage := Some (saveInstance
          \<lparr>uri = uri inst, version = version inst, inbox = inbox inst, outbox = outbox inst,
           trustMode = trustMode inst, lastSeen = lastSeen inst,
           instLastError = instLastError inst,
           isAllowed = (uri inst \<in> allowlist (trust (config m))),
           isBlocked = (uri inst \<in> blocklist (trust (config m)))\<rparr> s)\<rparr>)"

definition persistOutboxEvent ::
  "'o OutboxEvent \<Rightarrow> ('o, 'w) FederationManager \<Rightarrow> ('o, 'w) FederationManager" where
  "persistOutboxEvent e m =
     (case storage m of
        None \<Rightarrow> m
      | Some s \<Rightarrow> m\<lparr>storage := Some (saveOutboxEvent
          \<lparr>p_id = oid e, p_event = event e, p_created = created e,
           deliveredTo = delivered e\<rparr> s)\<rparr>)"

definition persistDeliveryAttempt ::
  "string \<Rightarrow> DeliveryAttempt \<Rightarrow> ('o, 'w) FederationManager \<Rightarrow> ('o, 'w) FederationManager" where
  "persistDeliveryAttempt k a m =
     (case storage m of
        None \<Rightarrow> m
      | Some s \<Rightarrow> m\<lparr>storage := Some (saveDeliveryAttempt
          \<lparr>instanceUri' = instanceUri' a, eventId = eventId a, attemptCount = attemptCount a,
           lastAttempt = lastAttempt a, nextAttempt = nextAttempt a, status = status a,
           lastError = lastError a, key = k\<rparr> s)\<rparr>)"

section \<open>Trust policy and discovery metadata\<close>

definition isEnabled :: "('o, 'w) FederationManager \<Rightarrow> bool" where
  "isEnabled m = enabled (config m)"

definition trustsInstance :: "('o, 'w) FederationManager \<Rightarrow> string \<Rightarrow> bool" where
  "trustsInstance m instUri =
     (if \<not> enabled (config m) then False
      else (case mode (trust (config m)) of
              Closed \<Rightarrow> False
            | Open \<Rightarrow> instUri \<notin> blocklist (trust (config m))
            | Blocklist \<Rightarrow> instUri \<notin> blocklist (trust (config m))
            | Allowlist \<Rightarrow> instUri \<in> allowlist (trust (config m))))"

definition allowInstance :: "string \<Rightarrow> ('o, 'w) FederationManager \<Rightarrow> ('o, 'w) FederationManager" where
  "allowInstance instUri m =
     (let t = trust (config m);
          m1 = m\<lparr>config := (config m)\<lparr>trust :=
                 t\<lparr>allowlist := insert instUri (allowlist t),
                   blocklist := blocklist t - {instUri}\<rparr>\<rparr>\<rparr>
      in case map_of (knownInstances m1) instUri of
           None \<Rightarrow> m1
         | Some inst \<Rightarrow> persistInstance inst m1)"

definition blockInstance :: "string \<Rightarrow> ('o, 'w) FederationManager \<Rightarrow> ('o, 'w) FederationManager" where
  "blockInstance instUri m =
     (let t = trust (config m);
          m1 = m\<lparr>config := (config m)\<lparr>trust :=
                 t\<lparr>blocklist := insert instUri (blocklist t),
                   allowlist := allowlist t - {instUri}\<rparr>\<rparr>\<rparr>
      in case map_of (knownInstances m1) instUri of
           None \<Rightarrow> m1
         | Some inst \<Rightarrow> persistInstance inst m1)"

record Metadata =
  md_enabled :: bool
  md_inbox :: "string option"
  md_outbox :: "string option"
  md_trustMode :: TrustMode

definition getMetadata :: "('o, 'w) FederationManager \<Rightarrow> Metadata" where
  "getMetadata m =
     (if \<not> enabled (config m)
      then \<lparr>md_enabled = False, md_inbox = None, md_outbox = None, md_trustMode = Closed\<rparr>
      else \<lparr>md_enabled = True,
            md_inbox = Some (instanceUri (config m) @ ''/federation/inbox''),
            md_outbox = Some (instanceUri (config m) @ ''/federation/outbox''),
            md_trustMode = mode (trust (config m))\<rparr>)"

definition createFederationConfig ::
  "string \<Rightarrow> bool \<Rightarrow> TrustMode \<Rightarrow> string option \<Rightarrow> FederationConfig" where
  "createFederationConfig instUri en md sk =
     \<lparr>enabled = en, instanceUri = instUri,
      trust = \<lparr>mode = md, allowlist = {}, blocklist = {}\<rparr>, signingKey = sk\<rparr>"

section \<open>Signature codec\<close>

text \<open>
  The library calls the code makes are parameters: \<^verbatim>\<open>new ethers.Wallet(key).signMessageSync\<close>
  (\<open>None\<close> when the library throws, as it does on a malformed key),
  \<^verbatim>\<open>ethers.verifyMessage\<close> (\<open>None\<close> when it throws), the address of a key's wallet, and
  \<^verbatim>\<open>JSON.stringify\<close>.
\<close>

record 'o Library =
  signMessageSync :: "string \<Rightarrow> string \<Rightarrow> string option"
  verifyMessage :: "string \<Rightarrow> string \<Rightarrow> string option"
  walletAddress :: "string \<Rightarrow> string"
  stringify :: "'o \<Rightarrow> string"

fun typeName :: "EventType \<Rightarrow> string" where
  "typeName PostCreated = ''PostCreated''"
| "typeName PostDeleted = ''PostDeleted''"
| "typeName CommentCreated = ''CommentCreated''"
| "typeName CommentDeleted = ''CommentDeleted''"

definition message :: "'o Library \<Rightarrow> ('o, 'z) UnsignedEvent_scheme \<Rightarrow> string" where
  "message L e =
     typeName (etype e) @ ''|'' @ origin e @ ''|'' @ timestamp e @ ''|'' @ stringify L (object e)"

datatype error = NoSigningKey | LibraryError | NotEnabled

definition signEvent ::
  "'o Library \<Rightarrow> ('o, 'w) FederationManager \<Rightarrow> 'o UnsignedEvent \<Rightarrow> error + 'o FederationEvent" where
  "signEvent L m e =
     (case signingKey (config m) of
        None \<Rightarrow> Inl NoSigningKey
      | Some k \<Rightarrow>
          if k = [] then Inl NoSigningKey
          else (case signMessageSync L k (message L e) of
                  None \<Rightarrow> Inl LibraryError
                | Some sig \<Rightarrow> Inr \<lparr>etype = etype e, origin = origin e, timestamp = timestamp e,
                                   object = object e, signature = sig\<rparr>))"

definition verifyEventSignature :: "'o Library \<Rightarrow> 'o FederationEvent \<Rightarrow> string option" where
  "verifyEventSignature L e =
     (case verifyMessage L (message L e) (signature e) of
        Some signer \<Rightarrow> Some signer
      | None \<Rightarrow> None)"

section \<open>Outbox log and inbound events\<close>

record 'o OutboxPage =
  events :: "'o FederationEvent list"
  cursor :: "string option"

fun outboxLoop ::
  "int \<Rightarrow> string option \<Rightarrow> (string \<times> 'o OutboxEvent) list \<Rightarrow> bool \<Rightarrow>
   'o FederationEvent list \<Rightarrow> string option \<Rightarrow> 'o OutboxPage" where
  "outboxLoop lim since [] foundSince evs cur = \<lparr>events = evs, cursor = cur\<rparr>"
| "outboxLoop lim since ((i, outboxEvent) # rest) foundSince evs cur =
     (if \<not> foundSince then outboxLoop lim since rest (Some i = since) evs cur
      else if lim \<le> int (length (evs @ [event outboxEvent]))
           then \<lparr>events = evs @ [event outboxEvent], cursor = Some i\<rparr>
           else outboxLoop lim since rest foundSince (evs @ [event outboxEvent]) (Some i))"

text \<open>\<^verbatim>\<open>options.limit || 50\<close>: a missing limit and the limit 0 are both 50.\<close>

definition getOutboxEvents ::
  "string option \<Rightarrow> int option \<Rightarrow> ('o, 'w) FederationManager \<Rightarrow> 'o OutboxPage" where
  "getOutboxEvents since limit m =
     (let lim = min (case limit of None \<Rightarrow> 50 | Some l \<Rightarrow> if l = 0 then 50 else l) 200
      in outboxLoop lim since (outboxQueue m) (\<not> truthy since) [] None)"

record InboundResult =
  accepted :: bool
  reason :: "string option"

text \<open>
  \<^verbatim>\<open>eventListeners.forEach\<close> with its \<^verbatim>\<open>try\<close>/\<^verbatim>\<open>catch\<close>: the world the listeners act
  on is threaded through them, and the console receives a line for each value thrown.
\<close>

fun notifyListeners ::
  "('o, 'w) listener list \<Rightarrow> 'o FederationEvent \<Rightarrow> 'w \<Rightarrow> string list \<Rightarrow> 'w \<times> string list" where
  "notifyListeners [] e w console = (w, console)"
| "notifyListeners (listener # ls) e w console =
     (case listener e w of
        (None, w') \<Rightarrow> notifyListeners ls e w' console
      | (Some ex, w') \<Rightarrow> notifyListeners ls e w' (console @ [''Event listener error: '' @ ex]))"

definition processInboundEvent ::
  "'o Library \<Rightarrow> 'o FederationEvent \<Rightarrow> string \<Rightarrow> ('o, 'w) FederationManager \<Rightarrow> 'w \<Rightarrow>
   InboundResult \<times> 'w \<times> string list" where
  "processInboundEvent L e sourceInstance m w =
     (if \<not> enabled (config m) then
        (\<lparr>accepted = False, reason = Some ''Federation disabled''\<rparr>, w, [])
      else if \<not> trustsInstance m sourceInstance then
        (\<lparr>accepted = False, reason = Some ''Instance not trusted''\<rparr>, w, [])
      else if origin e \<noteq> sourceInstance then
        (\<lparr>accepted = False, reason = Some ''Origin mismatch''\<rparr>, w, [])
      else if \<not> truthy (verifyEventSignature L e) then
        (\<lparr>accepted = False, reason = Some ''Invalid signature''\<rparr>, w, [])
      else (case notifyListeners (eventListeners m) e w [] of
              (w', console) \<Rightarrow> (\<lparr>accepted = True, reason = None\<rparr>, w', console)))"

definition onEvent ::
  "('o, 'w) listener \<Rightarrow> ('o, 'w) FederationManager \<Rightarrow> ('o, 'w) FederationManager" where
  "onEvent listener m = m\<lparr>eventListeners := eventListeners m @ [listener]\<rparr>"

definition getKnownInstances :: "('o, 'w) FederationManager \<Rightarrow> RemoteInstance list" where
  "getKnownInstances m = map snd (knownInstances m)"

section \<open>Delivery queue\<close>

definition deliveryKey :: "string \<Rightarrow> string \<Rightarrow> string" where
  "deliveryKey instUri evId = instUri @ '':'' @ evId"

definition queueOne ::
  "int \<Rightarrow> string \<Rightarrow> string \<Rightarrow> ('o, 'w) FederationManager \<Rightarrow> ('o, 'w) FederationManager" where
  "queueOne now evId instUri m =
     (let k = deliveryKey instUri evId in
      if \<not> has k (deliveryQueue m) then
        (let attempt = \<lparr>instanceUri' = instUri, eventId = evId, attemptCount = 0,
                        lastAttempt = 0, nextAttempt = now, status = Pending,
                        lastError = None\<rparr>
         in persistDeliveryAttempt k attempt
              (m\<lparr>deliveryQueue := AList.update k attempt (deliveryQueue m)\<rparr>))
      else m)"

text \<open>
  \<^verbatim>\<open>queueForDelivery\<close>; \<open>now\<close> is what \<^verbatim>\<open>new Date()\<close> reads during the call. The
  event argument is not used by the code. An empty array of targets is truthy, so only a
  missing one selects the trusted known instances.
\<close>

definition targetsOf :: "('o, 'w) FederationManager \<Rightarrow> string list option \<Rightarrow> string list" where
  "targetsOf m targetInstances =
     (case targetInstances of
        Some ts \<Rightarrow> ts
      | None \<Rightarrow> filter (trustsInstance m) (map fst (knownInstances m)))"

definition queueForDelivery ::
  "int \<Rightarrow> string \<Rightarrow> 'o FederationEvent \<Rightarrow> string list option \<Rightarrow>
   ('o, 'w) FederationManager \<Rightarrow> ('o, 'w) FederationManager" where
  "queueForDelivery now evId e targetInstances m =
     fold (queueOne now evId) (targetsOf m targetInstances) m"

record QueueStatus =
  qs_pending :: nat
  qs_delivered :: nat
  qs_failed :: nat
  qs_items :: "DeliveryAttempt list"

definition getDeliveryQueueStatus :: "('o, 'w) FederationManager \<Rightarrow> QueueStatus" where
  "getDeliveryQueueStatus m =
     (let items = map snd (deliveryQueue m) in
      \<lparr>qs_pending = length (filter (\<lambda>i. status i = Pending) items),
       qs_delivered = length (filter (\<lambda>i. status i = Delivered) items),
       qs_failed = length (filter (\<lambda>i. status i = Failed) items),
       qs_items = items\<rparr>)"

section \<open>Network, discovery and push\<close>

text \<open>
  The two HTTP calls are parameters acting on the world: the fetch of the well-known
  document (failing with a thrown message, answering non-2xx, or giving the parsed
  document) and the POST to an inbox. \<open>clock\<close> is what \<^verbatim>\<open>new Date()\<close> reads.
\<close>

record DiscoveryDoc =
  d_version :: string
  d_inbox :: "string option"
  d_outbox :: "string option"
  d_trustMode :: "TrustMode option"

datatype WellKnownResponse = FetchThrew string | FetchNotOk | FetchOk DiscoveryDoc

datatype PostResponse = PostThrew string | PostNotOk nat string | PostOk

record ('o, 'w) Network =
  fetchWellKnown :: "string \<Rightarrow> 'w \<Rightarrow> WellKnownResponse \<times> 'w"
  postInbox :: "string \<Rightarrow> string \<Rightarrow> 'o FederationEvent \<Rightarrow> 'w \<Rightarrow> PostResponse \<times> 'w"
  clock :: "'w \<Rightarrow> int"

definition discoverInstance ::
  "('o, 'w) Network \<Rightarrow> string \<Rightarrow> ('o, 'w) FederationManager \<Rightarrow> 'w \<Rightarrow>
   RemoteInstance option \<times> ('o, 'w) FederationManager \<times> 'w" where
  "discoverInstance net instUri m w =
     (let url = (if take 4 instUri = ''http'' then instUri @ ''/.well-known/asp''
                 else ''https://'' @ instUri @ ''/.well-known/asp'')
      in case fetchWellKnown net url w of
           (FetchThrew msg, w') \<Rightarrow>
             (None,
              (case map_of (knownInstances m) instUri of
                 None \<Rightarrow> m
               | Some existing \<Rightarrow>
                   m\<lparr>knownInstances :=
                       AList.update instUri (existing\<lparr>instLastError := Some msg\<rparr>)
                         (knownInstances m)\<rparr>),
              w')
         | (FetchNotOk, w') \<Rightarrow> (None, m, w')
         | (FetchOk metadata, w') \<Rightarrow>
             (let inst = \<lparr>uri = instUri, version = d_version metadata,
                          inbox = d_inbox metadata, outbox = d_outbox metadata,
                          trustMode = (case d_trustMode metadata of
                                         None \<Rightarrow> Closed | Some t \<Rightarrow> t),
                          lastSeen = clock net w', instLastError = None\<rparr>
              in (Some inst,
                  persistInstance inst
                    (m\<lparr>knownInstances := AList.update instUri inst (knownInstances m)\<rparr>),
                  w')))"

record PushResult =
  success :: bool
  error :: "string option"

fun showNat :: "nat \<Rightarrow> string" where
  "showNat n =
     (if n < 10 then [char_of (48 + n)] else showNat (n div 10) @ [char_of (48 + n mod 10)])"

text \<open>
  The POST of \<^verbatim>\<open>pushToInstance\<close>, on the instance record the code holds (the object
  stored in \<^verbatim>\<open>knownInstances\<close>, updated in place).
\<close>

definition pushPost ::
  "('o, 'w) Network \<Rightarrow> 'o FederationEvent \<Rightarrow> string \<Rightarrow> RemoteInstance \<Rightarrow>
   ('o, 'w) FederationManager \<Rightarrow> 'w \<Rightarrow> PushResult \<times> ('o, 'w) FederationManager \<times> 'w" where
  "pushPost net e instUri inst m w =
     (case postInbox net (the (inbox inst)) (instanceUri (config m)) e w of
        (PostNotOk st text, w') \<Rightarrow>
          (\<lparr>success = False,
            error = Some (''HTTP '' @ showNat st @ '': '' @ take 200 text)\<rparr>, m, w')
      | (PostOk, w') \<Rightarrow>
          (let inst' = inst\<lparr>lastSeen := clock net w', instLastError := None\<rparr>
           in (\<lparr>success = True, error = None\<rparr>,
               persistInstance inst'
                 (m\<lparr>knownInstances := AList.update instUri inst' (knownInstances m)\<rparr>),
               w'))
      | (PostThrew errorMsg, w') \<Rightarrow>
          (let inst' = inst\<lparr>instLastError := Some errorMsg\<rparr>
           in (\<lparr>success = False, error = Some errorMsg\<rparr>,
               persistInstance inst'
                 (m\<lparr>knownInstances := AList.update instUri inst' (knownInstances m)\<rparr>),
               w')))"

definition pushToInstance ::
  "('o, 'w) Network \<Rightarrow> 'o FederationEvent \<Rightarrow> string \<Rightarrow> ('o, 'w) FederationManager \<Rightarrow> 'w \<Rightarrow>
   PushResult \<times> ('o, 'w) FederationManager \<times> 'w" where
  "pushToInstance net e instUri m w =
     (if \<not> trustsInstance m instUri then
        (\<lparr>success = False, error = Some ''Instance not trusted''\<rparr>, m, w)
      else
        (case (case map_of (knownInstances m) instUri of
                 None \<Rightarrow> None
               | Some inst \<Rightarrow> if truthy (inbox inst) then Some inst else None) of
           Some inst \<Rightarrow> pushPost net e instUri inst m w
         | None \<Rightarrow>
             (case discoverInstance net instUri m w of
                (None, m', w') \<Rightarrow>
                  (\<lparr>success = False, error = Some ''Could not discover instance''\<rparr>, m', w')
              | (Some inst', m', w') \<Rightarrow>
                  if \<not> truthy (inbox inst') then
                    (\<lparr>success = False,
                      error = Some ''Instance does not accept federation inbox''\<rparr>, m', w')
                  else pushPost net e instUri inst' m' w')))"

section \<open>Publishing to the outbox\<close>

text \<open>
  \<^verbatim>\<open>publishEvent\<close>; \<open>now\<close> is what \<^verbatim>\<open>new Date()\<close> reads and \<open>isoNow\<close> its ISO string.
  The counter is incremented before the event is signed, so it stays incremented when
  signing throws. The result is the error thrown or the id of the event. The log keeps
  its last 1000 entries.
\<close>

definition publishEvent ::
  "'o Library \<Rightarrow> int \<Rightarrow> string \<Rightarrow> EventType \<Rightarrow> 'o \<Rightarrow> ('o, 'w) FederationManager \<Rightarrow>
   (error + string) \<times> ('o, 'w) FederationManager" where
  "publishEvent L now isoNow ty obj m =
     (if \<not> enabled (config m) then (Inl NotEnabled, m)
      else
        (let m1 = m\<lparr>outboxIdCounter := outboxIdCounter m + 1\<rparr>;
             evId = instanceUri (config m1) @ ''/outbox/'' @ showNat (outboxIdCounter m1);
             unsignedEvent = \<lparr>etype = ty, origin = instanceUri (config m1), timestamp = isoNow,
                              object = obj\<rparr>
         in case signEvent L m1 unsignedEvent of
              Inl e \<Rightarrow> (Inl e, m1)
            | Inr ev \<Rightarrow>
                (let outboxEvent = \<lparr>oid = evId, event = ev, created = now, delivered = []\<rparr>;
                     m2 = persistOutboxEvent outboxEvent
                            (m1\<lparr>outboxQueue := AList.update evId outboxEvent (outboxQueue m1)\<rparr>);
                     oldest = take (length (outboxQueue m2) - 1000) (map fst (outboxQueue m2))
                 in (Inr evId,
                     fold (\<lambda>i m'. m'\<lparr>outboxQueue := AList.delete i (outboxQueue m'),
                                      storage := map_option (deleteOutboxEvent i) (storage m')\<rparr>)
                       oldest m2))))"

definition publishAndPush ::
  "'o Library \<Rightarrow> int \<Rightarrow> string \<Rightarrow> EventType \<Rightarrow> 'o \<Rightarrow> ('o, 'w) FederationManager \<Rightarrow>
   (error + string) \<times> ('o, 'w) FederationManager" where
  "publishAndPush L now isoNow ty obj m =
     (case publishEvent L now isoNow ty obj m of
        (Inl e, m1) \<Rightarrow> (Inl e, m1)
      | (Inr evId, m1) \<Rightarrow>
          (case map_of (outboxQueue m1) evId of
             None \<Rightarrow> (Inr evId, m1)
           | Some outboxEvent \<Rightarrow>
               (Inr evId, queueForDelivery now evId (event outboxEvent) None m1)))"

section \<open>Draining the delivery queue\<close>

record DrainResult =
  processed :: nat
  succeeded :: nat
  failed :: nat

fun mutateFirst :: "('v \<Rightarrow> bool) \<Rightarrow> ('v \<Rightarrow> 'v) \<Rightarrow> ('k \<times> 'v) list \<Rightarrow> ('k \<times> 'v) list" where
  "mutateFirst P f [] = []"
| "mutateFirst P f ((k, v) # xs) = (if P v then (k, f v) # xs else (k, v) # mutateFirst P f xs)"

definition setAdd :: "'a \<Rightarrow> 'a list \<Rightarrow> 'a list" where
  "setAdd x s = (if x \<in> set s then s else s @ [x])"

text \<open>
  The body of the first loop of \<^verbatim>\<open>processDeliveryQueue\<close>, for the queue entry under
  \<open>k\<close>. The attempt and the outbox event are objects held by the maps, so their
  mutations are updates in place. \<open>recordOutcome\<close> is the part of the body that follows
  the push.
\<close>

definition recordOutcome ::
  "int \<Rightarrow> string \<Rightarrow> DeliveryAttempt \<Rightarrow> 'o OutboxEvent \<Rightarrow> PushResult \<Rightarrow>
   DrainResult \<times> ('o, 'w) FederationManager \<Rightarrow> DrainResult \<times> ('o, 'w) FederationManager" where
  "recordOutcome now k attempt outboxEvent result st =
     (case st of (res, m1) \<Rightarrow>
      (let res1 = res\<lparr>processed := processed res + 1\<rparr>;
           a1 = attempt\<lparr>attemptCount := attemptCount attempt + 1, lastAttempt := now\<rparr>
       in if success result then
            (let a2 = a1\<lparr>status := Delivered\<rparr>;
                 oe2 = outboxEvent\<lparr>delivered :=
                         setAdd (instanceUri' attempt) (delivered outboxEvent)\<rparr>;
                 m2 = m1\<lparr>deliveryQueue := AList.update k a2 (deliveryQueue m1),
                         outboxQueue :=
                           mutateFirst (\<lambda>oe. oid oe = eventId attempt)
                             (\<lambda>_. oe2) (outboxQueue m1)\<rparr>
             in (res1\<lparr>succeeded := succeeded res1 + 1\<rparr>,
                 persistDeliveryAttempt k a2 (persistOutboxEvent oe2 m2)))
          else
            (let a2 = a1\<lparr>lastError := error result\<rparr> in
             if MAX_RETRY_ATTEMPTS \<le> attemptCount a2 then
               (let a3 = a2\<lparr>status := Failed\<rparr>
                in (res1\<lparr>failed := failed res1 + 1\<rparr>,
                    persistDeliveryAttempt k a3
                      (m1\<lparr>deliveryQueue := AList.update k a3 (deliveryQueue m1)\<rparr>)))
             else
               (let backoffMs = RETRY_BACKOFF_MS !
                      (min (attemptCount a2 - 1) (length RETRY_BACKOFF_MS - 1));
                    a3 = a2\<lparr>nextAttempt := now + backoffMs\<rparr>
                in (res1,
                    persistDeliveryAttempt k a3
                      (m1\<lparr>deliveryQueue := AList.update k a3 (deliveryQueue m1)\<rparr>))))))"

definition deliverOne ::
  "('o, 'w) Network \<Rightarrow> int \<Rightarrow> string \<Rightarrow> DrainResult \<times> ('o, 'w) FederationManager \<times> 'w \<Rightarrow>
   DrainResult \<times> ('o, 'w) FederationManager \<times> 'w" where
  "deliverOne net now k st =
     (case st of (res, m, w) \<Rightarrow>
      (case map_of (deliveryQueue m) k of
         None \<Rightarrow> st
       | Some attempt \<Rightarrow>
           if status attempt \<noteq> Pending \<or> now < nextAttempt attempt then st
           else
             (case find (\<lambda>oe. oid oe = eventId attempt) (map snd (outboxQueue m)) of
                None \<Rightarrow> (res, m\<lparr>deliveryQueue := AList.delete k (deliveryQueue m)\<rparr>, w)
              | Some outboxEvent \<Rightarrow>
                  (case pushToInstance net (event outboxEvent) (instanceUri' attempt) m w of
                     (result, m1, w1) \<Rightarrow>
                       (case recordOutcome now k attempt outboxEvent result (res, m1) of
                          (res', m') \<Rightarrow> (res', m', w1))))))"

text \<open>The second loop: terminal entries older than an hour leave the queue and the store.\<close>

definition pruneOne ::
  "int \<Rightarrow> string \<Rightarrow> ('o, 'w) FederationManager \<Rightarrow> ('o, 'w) FederationManager" where
  "pruneOne now k m =
     (case map_of (deliveryQueue m) k of
        None \<Rightarrow> m
      | Some attempt \<Rightarrow>
          if status attempt \<noteq> Pending \<and> lastAttempt attempt < now - 3600000 then
            m\<lparr>deliveryQueue := AList.delete k (deliveryQueue m),
              storage := map_option (deleteDeliveryAttempt k) (storage m)\<rparr>
          else m)"

definition processDeliveryQueue ::
  "('o, 'w) Network \<Rightarrow> ('o, 'w) FederationManager \<Rightarrow> 'w \<Rightarrow>
   DrainResult \<times> ('o, 'w) FederationManager \<times> 'w" where
  "processDeliveryQueue net m w =
     (let now = clock net w in
      case fold (deliverOne net now) (map fst (deliveryQueue m))
             (\<lparr>processed = 0, succeeded = 0, failed = 0\<rparr>, m, w) of
        (res, m1, w1) \<Rightarrow>
          (res, fold (pruneOne now) (map fst (deliveryQueue m1)) m1, w1))"

section \<open>Construction from a store\<close>

definition loadInstance ::
  "PersistedRemoteInstance \<Rightarrow> ('o, 'w) FederationManager \<Rightarrow> ('o, 'w) FederationManager" where
  "loadInstance inst m =
     (let t = trust (config m);
          t1 = (if isAllowed inst then t\<lparr>allowlist := insert (uri inst) (allowlist t)\<rparr> else t);
          t2 = (if isBlocked inst then t1\<lparr>blocklist := insert (uri inst) (blocklist t1)\<rparr> else t1)
      in m\<lparr>knownInstances :=
             AList.update (uri inst)
               \<lparr>uri = uri inst, version = version inst, inbox = inbox inst,
                outbox = outbox inst, trustMode = trustMode inst, lastSeen = lastSeen inst,
                instLastError = instLastError inst\<rparr>
               (knownInstances m),
           config := (config m)\<lparr>trust := t2\<rparr>\<rparr>)"

text \<open>
  The match of \<^verbatim>\<open>/\/outbox\/(\d+)$/\<close>: the longest run of digits that ends the id, when
  it is not empty and follows \<^verbatim>\<open>/outbox/\<close>, read in base 10.
\<close>

definition isDigit :: "char \<Rightarrow> bool" where
  "isDigit c = (c \<in> set ''0123456789'')"

definition parseInt :: "string \<Rightarrow> nat" where
  "parseInt ds = foldl (\<lambda>n c. 10 * n + (of_char c - 48)) 0 ds"

definition outboxSeq :: "string \<Rightarrow> nat option" where
  "outboxSeq s =
     (let ds = rev (takeWhile isDigit (rev s));
          pre = take (length s - length ds) s
      in if ds \<noteq> [] \<and> drop (length pre - 8) pre = ''/outbox/'' then Some (parseInt ds)
         else None)"

definition newSet :: "'a list \<Rightarrow> 'a list" where
  "newSet xs = fold setAdd xs []"

definition loadOutboxEvent ::
  "'o PersistedOutboxEvent \<Rightarrow> ('o, 'w) FederationManager \<Rightarrow> ('o, 'w) FederationManager" where
  "loadOutboxEvent evt m =
     m\<lparr>outboxQueue :=
         AList.update (p_id evt)
           \<lparr>oid = p_id evt, event = p_event evt, created = p_created evt,
            delivered = newSet (deliveredTo evt)\<rparr>
           (outboxQueue m),
       outboxIdCounter :=
         (case outboxSeq (p_id evt) of
            None \<Rightarrow> outboxIdCounter m
          | Some num \<Rightarrow> if outboxIdCounter m < num then num else outboxIdCounter m)\<rparr>"

definition loadDelivery ::
  "PersistedDeliveryAttempt \<Rightarrow> ('o, 'w) FederationManager \<Rightarrow> ('o, 'w) FederationManager" where
  "loadDelivery del m =
     m\<lparr>deliveryQueue :=
         AList.update (key del)
           \<lparr>instanceUri' = instanceUri' del, eventId = eventId del,
            attemptCount = attemptCount del, lastAttempt = lastAttempt del,
            nextAttempt = nextAttempt del, status = status del, lastError = lastError del\<rparr>
           (deliveryQueue m)\<rparr>"

text \<open>
  \<^verbatim>\<open>loadFromStorage\<close> reaches the store through three reads of the interface
  \<^verbatim>\<open>FederationStorage\<close>, which has two implementations. A store is given to it here by
  what these reads return; \<open>memoryReads\<close> are the reads of \<^verbatim>\<open>MemoryFederationStorage\<close>.
  The reads of \<^verbatim>\<open>SQLiteFederationStorage\<close> are SQL queries: they return the rows of a
  table with a primary key, the pending ones for \<^verbatim>\<open>getPendingDeliveries\<close>, and the order
  among rows of equal \<^verbatim>\<open>created\<close> or \<^verbatim>\<open>next_attempt\<close> is the engine's choice, which
  need not be the insertion order that the stable sort of \<^verbatim>\<open>MemoryFederationStorage\<close>
  keeps.
\<close>

record 'o StorageReads =
  port_getInstances :: "PersistedRemoteInstance list"
  port_getOutboxEvents :: "int option \<Rightarrow> string option \<Rightarrow> 'o PersistedOutboxEvent list"
  port_getPendingDeliveries :: "int \<Rightarrow> PersistedDeliveryAttempt list"

definition memoryReads :: "'o FederationStorage \<Rightarrow> 'o StorageReads" where
  "memoryReads s =
     \<lparr>port_getInstances = getInstances s,
      port_getOutboxEvents = (\<lambda>limit since. storeGetOutboxEvents limit since s),
      port_getPendingDeliveries = (\<lambda>beforeTime. getPendingDeliveries beforeTime s)\<rparr>"

text \<open>
  The body of \<^verbatim>\<open>loadFromStorage\<close> over the reads of a store; \<open>now\<close> is what
  \<^verbatim>\<open>Date.now()\<close> reads.
\<close>

definition loadFrom ::
  "int \<Rightarrow> 'o StorageReads \<Rightarrow> ('o, 'w) FederationManager \<Rightarrow> ('o, 'w) FederationManager" where
  "loadFrom now st m =
     (let m1 = fold loadInstance (port_getInstances st) m;
          m2 = fold loadOutboxEvent (port_getOutboxEvents st (Some 1000) None) m1
      in fold loadDelivery (port_getPendingDeliveries st (now + 86400000)) m2)"

definition loadFromStorage ::
  "int \<Rightarrow> ('o, 'w) FederationManager \<Rightarrow> ('o, 'w) FederationManager" where
  "loadFromStorage now m =
     (case storage m of
        None \<Rightarrow> m
      | Some s \<Rightarrow> loadFrom now (memoryReads s) m)"

text \<open>The constructor. It takes no network: no call of it can reach one.\<close>

definition newFederationManager ::
  "int \<Rightarrow> FederationConfig \<Rightarrow> 'o FederationStorage option \<Rightarrow> ('o, 'w) FederationManager" where
  "newFederationManager now cfg st =
     (let m = \<lparr>config = cfg, knownInstances = [], outboxQueue = [], outboxIdCounter = 0,
               eventListeners = [], deliveryQueue = [], storage = st\<rparr>
      in case st of None \<Rightarrow> m | Some _ \<Rightarrow> loadFromStorage now m)"

section \<open>Notions used to state the properties\<close>

text \<open>A sequence of trust mutations.\<close>

datatype TrustOp = Allow string | Block string

fun applyTrustOp :: "TrustOp \<Rightarrow> ('o, 'w) FederationManager \<Rightarrow> ('o, 'w) FederationManager" where
  "applyTrustOp (Allow u) m = allowInstance u m"
| "applyTrustOp (Block u) m = blockInstance u m"

definition listsDisjoint :: "('o, 'w) FederationManager \<Rightarrow> bool" where
  "listsDisjoint m = (allowlist (trust (config m)) \<inter> blocklist (trust (config m)) = {})"

text \<open>What each listener throws (or not) when the listeners run one after the other.\<close>

fun listenerOutcomes ::
  "('o, 'w) listener list \<Rightarrow> 'o FederationEvent \<Rightarrow> 'w \<Rightarrow> string option list" where
  "listenerOutcomes [] e w = []"
| "listenerOutcomes (l # ls) e w = fst (l e w) # listenerOutcomes ls e (snd (l e w))"

text \<open>
  The contract of the signing library: verifying a signature it made over a message
  recovers the address of the signing key.
\<close>

definition recoversSigner :: "'o Library \<Rightarrow> bool" where
  "recoversSigner L =
     (\<forall>k msg sig. signMessageSync L k msg = Some sig \<longrightarrow>
        verifyMessage L msg sig = Some (walletAddress L k))"

text \<open>An event's signature matches its payload when some key signs that payload to it.\<close>

definition signatureMatches :: "'o Library \<Rightarrow> 'o FederationEvent \<Rightarrow> bool" where
  "signatureMatches L e = (\<exists>k. signMessageSync L k (message L e) = Some (signature e))"

text \<open>The attempt \<^verbatim>\<open>queueForDelivery\<close> creates.\<close>

definition freshAttempt :: "int \<Rightarrow> string \<Rightarrow> string \<Rightarrow> DeliveryAttempt" where
  "freshAttempt now ev t = \<lparr>instanceUri' = t, eventId = ev, attemptCount = 0,
            lastAttempt = 0, nextAttempt = now, status = Pending, lastError = None\<rparr>"

text \<open>
  The part of a log after the entry with id \<open>c\<close> (nothing when there is no such entry),
  and the page of at most \<open>lim\<close>, at least one, entries from the start of a log.
\<close>

definition afterCursor :: "string \<Rightarrow> (string \<times> 'v) list \<Rightarrow> (string \<times> 'v) list" where
  "afterCursor c q = tl (dropWhile (\<lambda>p. fst p \<noteq> c) q)"

definition pageOf :: "int \<Rightarrow> (string \<times> 'o OutboxEvent) list \<Rightarrow> 'o OutboxPage" where
  "pageOf lim q =
     \<lparr>events = map (event \<circ> snd) (take (nat (max 1 lim)) q),
      cursor = (if q = [] then None else Some (fst (last (take (nat (max 1 lim)) q))))\<rparr>"

text \<open>
  The entry of the delivery queue under a key; whether an event is in the outbox, as the
  drain looks it up; drain cycles run one after the other, each starting in a world of
  its own.
\<close>

definition attemptAt :: "('o, 'w) FederationManager \<Rightarrow> string \<Rightarrow> DeliveryAttempt option" where
  "attemptAt m k = map_of (deliveryQueue m) k"

definition inOutbox :: "('o, 'w) FederationManager \<Rightarrow> string \<Rightarrow> bool" where
  "inOutbox m evId = (find (\<lambda>oe. oid oe = evId) (map snd (outboxQueue m)) \<noteq> None)"

fun drainCycles ::
  "('o, 'w) Network \<Rightarrow> 'w list \<Rightarrow> ('o, 'w) FederationManager \<Rightarrow> ('o, 'w) FederationManager" where
  "drainCycles net [] m = m"
| "drainCycles net (w # ws) m = drainCycles net ws (fst (snd (processDeliveryQueue net m w)))"

text \<open>
  A delivery attempt after one more failed push at time \<open>now\<close> with error \<open>err\<close>: the
  fifth failure is terminal, an earlier one reschedules by the backoff ladder. A terminal
  attempt older than the retention hour. The manager after the first loop of a drain
  cycle.
\<close>

definition failedOnce :: "int \<Rightarrow> string option \<Rightarrow> DeliveryAttempt \<Rightarrow> DeliveryAttempt" where
  "failedOnce now err a =
     (if MAX_RETRY_ATTEMPTS \<le> attemptCount a + 1
      then a\<lparr>attemptCount := attemptCount a + 1, lastAttempt := now, lastError := err,
             status := Failed\<rparr>
      else a\<lparr>attemptCount := attemptCount a + 1, lastAttempt := now, lastError := err,
             nextAttempt := now + RETRY_BACKOFF_MS !
               (min (attemptCount a) (length RETRY_BACKOFF_MS - 1))\<rparr>)"

definition expired :: "int \<Rightarrow> DeliveryAttempt \<Rightarrow> bool" where
  "expired now a = (status a \<noteq> Pending \<and> lastAttempt a < now - 3600000)"

definition afterLoop ::
  "('o, 'w) Network \<Rightarrow> ('o, 'w) FederationManager \<Rightarrow> 'w \<Rightarrow> ('o, 'w) FederationManager" where
  "afterLoop net m w =
     fst (snd (fold (deliverOne net (clock net w)) (map fst (deliveryQueue m))
                 (\<lparr>processed = 0, succeeded = 0, failed = 0\<rparr>, m, w)))"

text \<open>
  The push of a drain cycle for the entry under \<open>k\<close>. \<open>pushOf\<close> is the result of the
  call of \<^verbatim>\<open>pushToInstance\<close> that the body of the first loop makes for the entry when
  it runs in the state \<open>st\<close> (none when the body skips the entry or drops it).
  \<open>cyclePush\<close> is that result in the state which the loop of the cycle started from
  \<open>m\<close> and \<open>w\<close> has reached when it comes to the entry, the entries before it in the
  queue done. \<open>failingCycles\<close>: in each of the cycles run one after the other from the
  worlds listed, the push for the entry is made and fails, with the result listed.
\<close>

definition pushOf ::
  "('o, 'w) Network \<Rightarrow> int \<Rightarrow> string \<Rightarrow> DrainResult \<times> ('o, 'w) FederationManager \<times> 'w \<Rightarrow>
   PushResult option" where
  "pushOf net now k st =
     (case st of (res, m, w) \<Rightarrow>
      (case map_of (deliveryQueue m) k of
         None \<Rightarrow> None
       | Some attempt \<Rightarrow>
           if status attempt \<noteq> Pending \<or> now < nextAttempt attempt then None
           else
             (case find (\<lambda>oe. oid oe = eventId attempt) (map snd (outboxQueue m)) of
                None \<Rightarrow> None
              | Some outboxEvent \<Rightarrow>
                  Some (fst (pushToInstance net (event outboxEvent) (instanceUri' attempt) m w)))))"

definition cyclePush ::
  "('o, 'w) Network \<Rightarrow> ('o, 'w) FederationManager \<Rightarrow> 'w \<Rightarrow> string \<Rightarrow> PushResult option" where
  "cyclePush net m w k =
     pushOf net (clock net w) k
       (fold (deliverOne net (clock net w))
          (takeWhile (\<lambda>k'. k' \<noteq> k) (map fst (deliveryQueue m)))
          (\<lparr>processed = 0, succeeded = 0, failed = 0\<rparr>, m, w))"

fun failingCycles ::
  "('o, 'w) Network \<Rightarrow> string \<Rightarrow> ('w \<times> PushResult) list \<Rightarrow> ('o, 'w) FederationManager \<Rightarrow> bool" where
  "failingCycles net k [] m = True"
| "failingCycles net k ((w, r) # rest) m =
     (cyclePush net m w k = Some r \<and> \<not> success r
      \<and> failingCycles net k rest (fst (snd (processDeliveryQueue net m w))))"

text \<open>
  The conversions that \<^verbatim>\<open>persistInstance\<close> and \<^verbatim>\<open>persistDeliveryAttempt\<close>
  apply to what they save, and those that \<^verbatim>\<open>loadFromStorage\<close> applies to what the
  store returns. The manager that the constructor builds over a store given by its
  reads (its reference to the store left out: no query of the manager reads it).
\<close>

definition toPersistedInstance :: "FederationConfig \<Rightarrow> RemoteInstance \<Rightarrow> PersistedRemoteInstance" where
  "toPersistedInstance cfg inst =
     \<lparr>uri = uri inst, version = version inst, inbox = inbox inst, outbox = outbox inst,
      trustMode = trustMode inst, lastSeen = lastSeen inst, instLastError = instLastError inst,
      isAllowed = (uri inst \<in> allowlist (trust cfg)),
      isBlocked = (uri inst \<in> blocklist (trust cfg))\<rparr>"

definition toPersistedAttempt :: "string \<Rightarrow> DeliveryAttempt \<Rightarrow> PersistedDeliveryAttempt" where
  "toPersistedAttempt k a =
     \<lparr>instanceUri' = instanceUri' a, eventId = eventId a, attemptCount = attemptCount a,
      lastAttempt = lastAttempt a, nextAttempt = nextAttempt a, status = status a,
      lastError = lastError a, key = k\<rparr>"

definition fromPersistedInstance :: "PersistedRemoteInstance \<Rightarrow> RemoteInstance" where
  "fromPersistedInstance inst =
     \<lparr>uri = uri inst, version = version inst, inbox = inbox inst, outbox = outbox inst,
      trustMode = trustMode inst, lastSeen = lastSeen inst, instLastError = instLastError inst\<rparr>"

definition fromPersistedOutbox :: "'o PersistedOutboxEvent \<Rightarrow> 'o OutboxEvent" where
  "fromPersistedOutbox evt =
     \<lparr>oid = p_id evt, event = p_event evt, created = p_created evt,
      delivered = newSet (deliveredTo evt)\<rparr>"

definition fromPersistedAttempt :: "PersistedDeliveryAttempt \<Rightarrow> DeliveryAttempt" where
  "fromPersistedAttempt del =
     \<lparr>instanceUri' = instanceUri' del, eventId = eventId del, attemptCount = attemptCount del,
      lastAttempt = lastAttempt del, nextAttempt = nextAttempt del, status = status del,
      lastError = lastError del\<rparr>"

definition constructedOver ::
  "int \<Rightarrow> FederationConfig \<Rightarrow> 'o StorageReads \<Rightarrow> ('o, 'w) FederationManager" where
  "constructedOver now cfg st =
     loadFrom now st
       \<lparr>config = cfg, knownInstances = [], outboxQueue = [], outboxIdCounter = 0,
        eventListeners = [], deliveryQueue = [], storage = None\<rparr>"

text \<open>
  A \<^verbatim>\<open>MemoryFederationStorage\<close> whose maps hold each record under its own id, as the
  saves put them there.
\<close>

definition storeKeyed :: "'o FederationStorage \<Rightarrow> bool" where
  "storeKeyed s =
     (distinct (map fst (instances s)) \<and> (\<forall>(k, r) \<in> set (instances s). uri r = k)
      \<and> distinct (map fst (outbox' s)) \<and> (\<forall>(k, e) \<in> set (outbox' s). p_id e = k)
      \<and> distinct (map fst (deliveryQueue' s)) \<and> (\<forall>(k, a) \<in> set (deliveryQueue' s). key a = k))"


section \<open>Example inputs\<close>

text \<open>
  A stand-in for the signing library, with recovery in the manner of ECDSA recovery:
  a signature is the message, a separator and the key; verifying throws on a string
  without separator, recovers the key when the message is the signed one, and recovers
  some other identity otherwise.
\<close>

definition toyLibrary :: "string Library" where
  "toyLibrary =
     \<lparr>signMessageSync = (\<lambda>k msg. if k = [] then None else Some (msg @ ''#'' @ k)),
      verifyMessage = (\<lambda>msg sig.
         if CHR ''#'' \<notin> set sig then None
         else if take (Suc (length msg)) sig = msg @ ''#'' then Some (drop (Suc (length msg)) sig)
         else Some (''0x?'' @ sig)),
      walletAddress = (\<lambda>k. k),
      stringify = (\<lambda>s. s)\<rparr>"

definition recordingListener :: "(string, string FederationEvent list) listener" where
  "recordingListener e w = (None, w @ [e])"

definition throwingListener :: "(string, string FederationEvent list) listener" where
  "throwingListener e w = (Some ''boom'', w)"

definition exampleManager :: "(string, string FederationEvent list) FederationManager" where
  "exampleManager =
     newFederationManager 0
       (createFederationConfig ''https://a.example'' True Open (Some ''key-a'')) None"

definition listeningManager :: "(string, string FederationEvent list) FederationManager" where
  "listeningManager =
     onEvent recordingListener (onEvent throwingListener (onEvent recordingListener exampleManager))"

definition forgedEvent :: "string FederationEvent" where
  "forgedEvent =
     \<lparr>etype = PostCreated, origin = ''https://x.example'', timestamp = ''2025-02-01T12:00:00Z'',
      object = ''hello'',
      signature = ''PostCreated|https://x.example|2025-02-01T12:00:00Z|hello#mallory''\<rparr>"

definition genuineEvent :: "string FederationEvent" where
  "genuineEvent =
     \<lparr>etype = PostCreated, origin = ''https://x.example'', timestamp = ''2025-02-01T12:00:00Z'',
      object = ''hello'',
      signature = ''PostCreated|https://x.example|2025-02-01T12:00:00Z|hello#key-x''\<rparr>"

definition unsignedEvent :: "string UnsignedEvent" where
  "unsignedEvent =
     \<lparr>etype = PostCreated, origin = ''https://a.example'', timestamp = ''2025-02-01T12:00:00Z'',
      object = ''hello''\<rparr>"

definition signedEvent :: "string FederationEvent" where
  "signedEvent =
     \<lparr>etype = PostCreated, origin = ''https://a.example'', timestamp = ''2025-02-01T12:00:00Z'',
      object = ''hello'',
      signature = ''PostCreated|https://a.example|2025-02-01T12:00:00Z|hello#key-a''\<rparr>"

definition tamperedEvent :: "string FederationEvent" where
  "tamperedEvent = signedEvent\<lparr>timestamp := ''2025-02-01T12:00:09Z''\<rparr>"

definition secondEvent :: "string FederationEvent" where
  "secondEvent =
     \<lparr>etype = PostDeleted, origin = ''https://a.example'', timestamp = ''2025-02-01T12:00:05Z'',
      object = ''hello'',
      signature = ''PostDeleted|https://a.example|2025-02-01T12:00:05Z|hello#key-a''\<rparr>"

text \<open>
  A manager with a store, after it published two events: the store holds what the
  manager's own saves left in it.
\<close>

definition outboxManager :: "(string, int) FederationManager" where
  "outboxManager =
     snd (publishEvent toyLibrary 5000 ''2025-02-01T12:00:05Z'' PostDeleted ''hello''
       (snd (publishEvent toyLibrary 1000 ''2025-02-01T12:00:00Z'' PostCreated ''hello''
          (newFederationManager 0
             (createFederationConfig ''https://a.example'' True Open (Some ''key-a''))
             (Some emptyStorage)))))"

text \<open>
  A network on which two peers are discovered; the inbox of the first accepts every
  event, the inbox of the second answers 500 before time 11000 and 503 from then on. Its
  world is the time.
\<close>

definition halfNet :: "(string, int) Network" where
  "halfNet =
     \<lparr>fetchWellKnown = (\<lambda>url w.
        if url = ''https://b.example/.well-known/asp''
        then (FetchOk \<lparr>d_version = ''0.1.0'',
                       d_inbox = Some ''https://b.example/federation/inbox'',
                       d_outbox = Some ''https://b.example/federation/outbox'',
                       d_trustMode = Some Open\<rparr>, w)
        else if url = ''https://c.example/.well-known/asp''
        then (FetchOk \<lparr>d_version = ''0.1.0'',
                       d_inbox = Some ''https://c.example/federation/inbox'',
                       d_outbox = Some ''https://c.example/federation/outbox'',
                       d_trustMode = Some Open\<rparr>, w)
        else (FetchThrew ''fetch failed'', w)),
      postInbox = (\<lambda>url org e w.
        if url = ''https://b.example/federation/inbox'' then (PostOk, w)
        else if w < 11000 then (PostNotOk 500 ''Internal Server Error'', w)
        else (PostNotOk 503 ''Service Unavailable'', w)),
      clock = (\<lambda>w. w)\<rparr>"

text \<open>The manager after it queued its first event for the two peers.\<close>

definition queuedManager :: "(string, int) FederationManager" where
  "queuedManager =
     queueForDelivery 5000 ''https://a.example/outbox/1'' signedEvent
       (Some [''https://b.example'', ''https://c.example'']) outboxManager"

text \<open>
  The state of that manager after drain cycles on the network above, \<open>c\<close> being the
  attempt for the second peer by then: both peers were discovered and the event was
  delivered to the first in the first cycle, and the store holds what the saves of the
  manager left in it. The attempt for the second peer after the first cycle, and the
  manager after that cycle.
\<close>

definition deliveredAttempt :: DeliveryAttempt where
  "deliveredAttempt =
     \<lparr>instanceUri' = ''https://b.example'', eventId = ''https://a.example/outbox/1'',
      attemptCount = 1, lastAttempt = 5000, nextAttempt = 5000, status = Delivered,
      lastError = None\<rparr>"

definition peerB :: RemoteInstance where
  "peerB =
     \<lparr>uri = ''https://b.example'', version = ''0.1.0'',
      inbox = Some ''https://b.example/federation/inbox'',
      outbox = Some ''https://b.example/federation/outbox'', trustMode = Open,
      lastSeen = 5000, instLastError = None\<rparr>"

definition peerC :: RemoteInstance where
  "peerC =
     \<lparr>uri = ''https://c.example'', version = ''0.1.0'',
      inbox = Some ''https://c.example/federation/inbox'',
      outbox = Some ''https://c.example/federation/outbox'', trustMode = Open,
      lastSeen = 5000, instLastError = None\<rparr>"

definition drainedState :: "DeliveryAttempt \<Rightarrow> (string, int) FederationManager" where
  "drainedState c =
     \<lparr>config = createFederationConfig ''https://a.example'' True Open (Some ''key-a''),
      knownInstances = [(''https://b.example'', peerB), (''https://c.example'', peerC)],
      outboxQueue =
        [(''https://a.example/outbox/1'',
          \<lparr>oid = ''https://a.example/outbox/1'', event = signedEvent, created = 1000,
           delivered = [''https://b.example'']\<rparr>),
         (''https://a.example/outbox/2'',
          \<lparr>oid = ''https://a.example/outbox/2'', event = secondEvent, created = 5000,
           delivered = []\<rparr>)],
      outboxIdCounter = 2,
      eventListeners = [],
      deliveryQueue =
        [(''https://b.example:https://a.example/outbox/1'', deliveredAttempt),
         (''https://c.example:https://a.example/outbox/1'', c)],
      storage = Some
        \<lparr>instances =
           [(''https://b.example'',
             toPersistedInstance
               (createFederationConfig ''https://a.example'' True Open (Some ''key-a'')) peerB),
            (''https://c.example'',
             toPersistedInstance
               (createFederationConfig ''https://a.example'' True Open (Some ''key-a'')) peerC)],
         outbox' =
           [(''https://a.example/outbox/1'',
             \<lparr>p_id = ''https://a.example/outbox/1'', p_event = signedEvent, p_created = 1000,
              deliveredTo = [''https://b.example'']\<rparr>),
            (''https://a.example/outbox/2'',
             \<lparr>p_id = ''https://a.example/outbox/2'', p_event = secondEvent,
              p_created = 5000, deliveredTo = []\<rparr>)],
         deliveryQueue' =
           [(''https://b.example:https://a.example/outbox/1'',
             toPersistedAttempt ''https://b.example:https://a.example/outbox/1''
               deliveredAttempt),
            (''https://c.example:https://a.example/outbox/1'',
             toPersistedAttempt ''https://c.example:https://a.example/outbox/1'' c)]\<rparr>\<rparr>"

definition retryingAttempt :: DeliveryAttempt where
  "retryingAttempt =
     \<lparr>instanceUri' = ''https://c.example'', eventId = ''https://a.example/outbox/1'',
      attemptCount = 1, lastAttempt = 5000, nextAttempt = 6000, status = Pending,
      lastError = Some ''HTTP 500: Internal Server Error''\<rparr>"

definition drainedManager :: "(string, int) FederationManager" where
  "drainedManager = drainCycles halfNet [5000] queuedManager"

text \<open>
  A network on which nothing answers, and the drained manager after it tried to
  discover its first peer again on that network.
\<close>

definition offlineNet :: "(string, int) Network" where
  "offlineNet =
     \<lparr>fetchWellKnown = (\<lambda>url w. (FetchThrew ''fetch failed'', w)),
      postInbox = (\<lambda>url org e w. (PostNotOk 500 ''Internal Server Error'', w)),
      clock = (\<lambda>w. w)\<rparr>"

definition rediscoveredManager :: "(string, int) FederationManager" where
  "rediscoveredManager =
     fst (snd (discoverInstance offlineNet ''https://b.example'' drainedManager 7000))"

section \<open>Properties\<close>

subsection \<open>Trust policy\<close>

text \<open>
  C2. With federation enabled, \<^verbatim>\<open>trustsInstance\<close> follows the table of the trust
  modes: never in mode closed; membership in the allow set in mode allowlist; absence
  from the block set in the modes open and blocklist.
\<close>

theorem trustsInstance_table:
  assumes "enabled (config m)"
  shows "(mode (trust (config m)) = Closed \<longrightarrow> \<not> trustsInstance m u)
       \<and> (mode (trust (config m)) = Allowlist \<longrightarrow>
            trustsInstance m u = (u \<in> allowlist (trust (config m))))
       \<and> (mode (trust (config m)) = Open \<or> mode (trust (config m)) = Blocklist \<longrightarrow>
            trustsInstance m u = (u \<notin> blocklist (trust (config m))))"
  using assms by (auto simp: trustsInstance_def)

theorem trustsInstance_table_witness:
  "enabled (config (blockInstance ''https://c.example'' exampleManager))
   \<and> mode (trust (config (blockInstance ''https://c.example'' exampleManager))) = Open
   \<and> trustsInstance (blockInstance ''https://c.example'' exampleManager) ''https://b.example''
   \<and> \<not> trustsInstance (blockInstance ''https://c.example'' exampleManager) ''https://c.example''
   \<and> mode (trust (config (allowInstance ''https://b.example''
         (exampleManager\<lparr>config := createFederationConfig ''https://a.example'' True
            Allowlist None\<rparr>)))) = Allowlist
   \<and> trustsInstance (allowInstance ''https://b.example''
         (exampleManager\<lparr>config := createFederationConfig ''https://a.example'' True
            Allowlist None\<rparr>)) ''https://b.example''
   \<and> \<not> trustsInstance (allowInstance ''https://b.example''
         (exampleManager\<lparr>config := createFederationConfig ''https://a.example'' True
            Allowlist None\<rparr>)) ''https://c.example''
   \<and> \<not> trustsInstance (exampleManager\<lparr>config := createFederationConfig ''https://a.example''
         True Closed None\<rparr>) ''https://b.example''"
proof -
  let ?open = "blockInstance ''https://c.example'' exampleManager"
  let ?allow = "allowInstance ''https://b.example''
         (exampleManager\<lparr>config := createFederationConfig ''https://a.example'' True
            Allowlist None\<rparr>)"
  let ?closed = "exampleManager\<lparr>config := createFederationConfig ''https://a.example''
         True Closed None\<rparr>"
  have k: "knownInstances exampleManager = []" "config exampleManager =
      createFederationConfig ''https://a.example'' True Open (Some ''key-a'')"
    by (simp_all add: exampleManager_def newFederationManager_def)
  have c: "config ?open = \<lparr>enabled = True, instanceUri = ''https://a.example'',
             trust = \<lparr>mode = Open, allowlist = {}, blocklist = {''https://c.example''}\<rparr>,
             signingKey = Some ''key-a''\<rparr>"
          "config ?allow = \<lparr>enabled = True, instanceUri = ''https://a.example'',
             trust = \<lparr>mode = Allowlist, allowlist = {''https://b.example''}, blocklist = {}\<rparr>,
             signingKey = None\<rparr>"
          "config ?closed = \<lparr>enabled = True, instanceUri = ''https://a.example'',
             trust = \<lparr>mode = Closed, allowlist = {}, blocklist = {}\<rparr>,
             signingKey = None\<rparr>"
    by (simp_all add: blockInstance_def allowInstance_def Let_def k createFederationConfig_def)
  show ?thesis
    using trustsInstance_table [of ?open "''https://b.example''"]
          trustsInstance_table [of ?open "''https://c.example''"]
          trustsInstance_table [of ?allow "''https://b.example''"]
          trustsInstance_table [of ?allow "''https://c.example''"]
          trustsInstance_table [of ?closed "''https://b.example''"]
    by (simp add: c)
qed

text \<open>
  C10. With federation disabled, whatever the trust mode and the allow and block sets,
  \<^verbatim>\<open>trustsInstance\<close> is false for every instance, and \<^verbatim>\<open>getMetadata\<close> reports
  federation not enabled, trust mode closed, and neither inbox nor outbox.
\<close>

theorem disabled_federation:
  assumes "\<not> enabled (config m)"
  shows "\<not> trustsInstance m u
       \<and> getMetadata m = \<lparr>md_enabled = False, md_inbox = None, md_outbox = None,
                           md_trustMode = Closed\<rparr>"
  using assms by (simp add: trustsInstance_def getMetadata_def)

theorem disabled_federation_witness:
  "\<not> enabled (config (exampleManager\<lparr>config := createFederationConfig ''https://a.example''
                                                    False Open None\<rparr>))
   \<and> \<not> trustsInstance (exampleManager\<lparr>config := createFederationConfig ''https://a.example''
                                                    False Open None\<rparr>) ''https://b.example''
   \<and> md_trustMode (getMetadata (exampleManager\<lparr>config :=
         createFederationConfig ''https://a.example'' False Open None\<rparr>)) = Closed
   \<and> md_inbox (getMetadata (exampleManager\<lparr>config :=
         createFederationConfig ''https://a.example'' False Open None\<rparr>)) = None"
  using disabled_federation [of "exampleManager\<lparr>config :=
          createFederationConfig ''https://a.example'' False Open None\<rparr>" "''https://b.example''"]
  by (simp add: createFederationConfig_def)

lemma saveInstance_twice: "saveInstance p (saveInstance p s) = saveInstance p s"
  by (simp add: saveInstance_def)

lemma config_persistInstance [simp]: "config (persistInstance i m) = config m"
  by (simp add: persistInstance_def split: option.splits)

lemma allowInstance_twice: "allowInstance u (allowInstance u m) = allowInstance u m"
  by (simp add: allowInstance_def Let_def persistInstance_def saveInstance_def split: option.splits)

lemma blockInstance_twice: "blockInstance u (blockInstance u m) = blockInstance u m"
  by (simp add: blockInstance_def Let_def persistInstance_def saveInstance_def split: option.splits)

lemma allowlist_allowInstance:
  "allowlist (trust (config (allowInstance u m))) = insert u (allowlist (trust (config m)))"
  by (simp add: allowInstance_def Let_def split: option.splits)

lemma blocklist_allowInstance:
  "blocklist (trust (config (allowInstance u m))) = blocklist (trust (config m)) - {u}"
  by (simp add: allowInstance_def Let_def split: option.splits)

lemma allowlist_blockInstance:
  "allowlist (trust (config (blockInstance u m))) = allowlist (trust (config m)) - {u}"
  by (simp add: blockInstance_def Let_def split: option.splits)

lemma blocklist_blockInstance:
  "blocklist (trust (config (blockInstance u m))) = insert u (blocklist (trust (config m)))"
  by (simp add: blockInstance_def Let_def split: option.splits)

lemma listsDisjoint_applyTrustOp: "listsDisjoint m \<Longrightarrow> listsDisjoint (applyTrustOp op m)"
  by (cases op)
     (auto simp: listsDisjoint_def allowlist_allowInstance blocklist_allowInstance
        allowlist_blockInstance blocklist_blockInstance)

lemma listsDisjoint_fold: "listsDisjoint m \<Longrightarrow> listsDisjoint (fold applyTrustOp ops m)"
  by (induction ops arbitrary: m) (simp_all add: listsDisjoint_applyTrustOp)

text \<open>
  C8. After \<^verbatim>\<open>allowInstance\<close> the URI is in the allowlist and not in the blocklist;
  after \<^verbatim>\<open>blockInstance\<close> it is in the blocklist and not in the allowlist; calling
  either a second time changes nothing (of the whole manager, its store included); and
  lists that are disjoint stay disjoint under every sequence of the two operations.
\<close>

theorem allow_block_exclusive:
  "u \<in> allowlist (trust (config (allowInstance u m)))
   \<and> u \<notin> blocklist (trust (config (allowInstance u m)))
   \<and> u \<in> blocklist (trust (config (blockInstance u m)))
   \<and> u \<notin> allowlist (trust (config (blockInstance u m)))
   \<and> allowInstance u (allowInstance u m) = allowInstance u m
   \<and> blockInstance u (blockInstance u m) = blockInstance u m
   \<and> (listsDisjoint m \<longrightarrow> listsDisjoint (fold applyTrustOp ops m))"
  by (simp add: allowlist_allowInstance blocklist_allowInstance allowlist_blockInstance
        blocklist_blockInstance allowInstance_twice blockInstance_twice listsDisjoint_fold)

theorem allow_block_exclusive_witness:
  "listsDisjoint exampleManager
   \<and> listsDisjoint (fold applyTrustOp
        [Allow ''https://b.example'', Block ''https://b.example'', Block ''https://c.example'',
         Allow ''https://c.example''] exampleManager)
   \<and> allowlist (trust (config (fold applyTrustOp
        [Allow ''https://b.example'', Block ''https://b.example'', Block ''https://c.example'',
         Allow ''https://c.example''] exampleManager))) = {''https://c.example''}
   \<and> blocklist (trust (config (fold applyTrustOp
        [Allow ''https://b.example'', Block ''https://b.example'', Block ''https://c.example'',
         Allow ''https://c.example''] exampleManager))) = {''https://b.example''}"
proof -
  have d: "listsDisjoint exampleManager"
    by (simp add: listsDisjoint_def exampleManager_def newFederationManager_def
          createFederationConfig_def)
  have k: "knownInstances exampleManager = []" "config exampleManager =
      createFederationConfig ''https://a.example'' True Open (Some ''key-a'')"
    by (simp_all add: exampleManager_def newFederationManager_def)
  show ?thesis
    using allow_block_exclusive [of "''https://b.example''" exampleManager
        "[Allow ''https://b.example'', Block ''https://b.example'', Block ''https://c.example'',
          Allow ''https://c.example'']"] d
    by (simp add: allowInstance_def blockInstance_def Let_def k createFederationConfig_def)
qed

subsection \<open>Signatures and inbound events\<close>

lemma message_signed [simp]:
  "message L \<lparr>etype = etype e, origin = origin e, timestamp = timestamp e,
               object = object e, signature = sig\<rparr> = message L e"
  by (simp add: message_def)

lemma recoversSigner_toyLibrary: "recoversSigner toyLibrary"
  by (auto simp: recoversSigner_def toyLibrary_def split: if_splits)

text \<open>
  C6, as the code has it. With a configured key the library accepts, \<^verbatim>\<open>signEvent\<close>
  returns a signed event whose verification is the address of that key (given that the
  library recovers the signer of its own signatures). \<^verbatim>\<open>verifyEventSignature\<close> never
  raises; it returns null exactly when the library's verification throws, and otherwise
  whatever identity the library recovers.
\<close>

theorem sign_verify_roundtrip:
  assumes "recoversSigner L" and "signingKey (config m) = Some k" and "k \<noteq> []"
    and "signMessageSync L k (message L e) \<noteq> None"
  shows "(\<exists>signed. signEvent L m e = Inr signed
            \<and> verifyEventSignature L signed = Some (walletAddress L k))
         \<and> (verifyEventSignature L ev = None
              \<longleftrightarrow> verifyMessage L (message L ev) (signature ev) = None)"
proof -
  obtain sig where s: "signMessageSync L k (message L e) = Some sig"
    using assms(4) by auto
  then have v: "verifyMessage L (message L e) sig = Some (walletAddress L k)"
    using assms(1) by (simp add: recoversSigner_def)
  have "signEvent L m e = Inr \<lparr>etype = etype e, origin = origin e, timestamp = timestamp e,
                               object = object e, signature = sig\<rparr>"
    using assms(2,3) s by (simp add: signEvent_def)
  moreover have "verifyEventSignature L \<lparr>etype = etype e, origin = origin e,
      timestamp = timestamp e, object = object e, signature = sig\<rparr> = Some (walletAddress L k)"
    using v by (simp add: verifyEventSignature_def)
  moreover have "verifyEventSignature L ev = None
              \<longleftrightarrow> verifyMessage L (message L ev) (signature ev) = None"
    by (simp add: verifyEventSignature_def split: option.splits)
  ultimately show ?thesis by simp
qed

theorem sign_verify_roundtrip_witness:
  "recoversSigner toyLibrary \<and> signingKey (config exampleManager) = Some ''key-a''
   \<and> signEvent toyLibrary exampleManager unsignedEvent = Inr signedEvent
   \<and> (\<exists>signed. signEvent toyLibrary exampleManager unsignedEvent = Inr signed
         \<and> verifyEventSignature toyLibrary signed = Some ''key-a'')"
proof -
  have k: "signingKey (config exampleManager) = Some ''key-a''"
    by (simp add: exampleManager_def newFederationManager_def createFederationConfig_def)
  have s: "signMessageSync toyLibrary ''key-a'' (message toyLibrary unsignedEvent) \<noteq> None"
    by (simp add: toyLibrary_def)
  have w: "walletAddress toyLibrary ''key-a'' = ''key-a''"
    by (simp add: toyLibrary_def)
  have e: "signEvent toyLibrary exampleManager unsignedEvent = Inr signedEvent"
    by (simp add: signEvent_def k toyLibrary_def message_def unsignedEvent_def signedEvent_def)
  show ?thesis
    using sign_verify_roundtrip [OF recoversSigner_toyLibrary k _ s, of tamperedEvent]
    by (simp only: w recoversSigner_toyLibrary k e) simp
qed

text \<open>
  The claim as stated fails: an event whose signature was made over another payload
  (the timestamp was changed after signing) matches no key's signature of its payload,
  and its verification is not null but an identity.
\<close>

theorem tampered_payload_not_null:
  "recoversSigner toyLibrary \<and> \<not> signatureMatches toyLibrary tamperedEvent
   \<and> verifyEventSignature toyLibrary tamperedEvent
       = Some ''0x?PostCreated|https://a.example|2025-02-01T12:00:00Z|hello#key-a''"
proof -
  have "\<not> signatureMatches toyLibrary tamperedEvent"
    by (simp add: signatureMatches_def toyLibrary_def tamperedEvent_def signedEvent_def
          message_def)
  moreover have "verifyEventSignature toyLibrary tamperedEvent
       = Some ''0x?PostCreated|https://a.example|2025-02-01T12:00:00Z|hello#key-a''"
    by (simp add: verifyEventSignature_def toyLibrary_def tamperedEvent_def signedEvent_def
          message_def)
  ultimately show ?thesis
    using recoversSigner_toyLibrary by simp
qed

text \<open>
  Whatever identity a signature verifies to, an envelope from a trusted source with
  matching origin is accepted: no identity of the origin enters the decision.
\<close>

lemma any_signer_accepted:
  assumes "enabled (config m)" and "trustsInstance m src" and "origin e = src"
    and "verifyEventSignature L e = Some signer" and "signer \<noteq> []"
  shows "fst (processInboundEvent L e src m w) = \<lparr>accepted = True, reason = None\<rparr>"
  using assms by (simp add: processInboundEvent_def split: prod.splits)

lemma verify_forgedEvent: "verifyEventSignature toyLibrary forgedEvent = Some ''mallory''"
  by (simp add: verifyEventSignature_def toyLibrary_def forgedEvent_def message_def)

text \<open>
  C1, at a failing input. The envelope names the trusted origin \<^verbatim>\<open>https://x.example\<close>,
  which is also the claimed source, and its signature verifies to the identity of another
  key than that instance's. \<^verbatim>\<open>processInboundEvent\<close> accepts it and the registered
  listener receives it: the signer is only tested for being null.
\<close>

theorem forged_envelope_accepted:
  "trustsInstance (onEvent recordingListener exampleManager) ''https://x.example''
   \<and> origin forgedEvent = ''https://x.example''
   \<and> verifyEventSignature toyLibrary forgedEvent = Some ''mallory''
   \<and> ''mallory'' \<noteq> walletAddress toyLibrary ''key-x''
   \<and> processInboundEvent toyLibrary forgedEvent ''https://x.example''
        (onEvent recordingListener exampleManager) []
      = (\<lparr>accepted = True, reason = None\<rparr>, [forgedEvent], [])"
  by (simp add: processInboundEvent_def verify_forgedEvent trustsInstance_def onEvent_def
        exampleManager_def newFederationManager_def createFederationConfig_def
        recordingListener_def)
     (simp add: toyLibrary_def forgedEvent_def)

lemma notifyListeners_world:
  "fst (notifyListeners ls e w c) = foldl (\<lambda>w l. snd (l e w)) w ls"
  by (induction ls arbitrary: w c) (auto split: prod.splits option.splits)

lemma notifyListeners_console:
  "snd (notifyListeners ls e w c) =
     c @ map (\<lambda>ex. ''Event listener error: '' @ ex) (List.map_filter id (listenerOutcomes ls e w))"
  by (induction ls arbitrary: w c)
     (auto simp: List.map_filter_simps split: prod.splits option.splits)

lemma length_listenerOutcomes: "length (listenerOutcomes ls e w) = length ls"
  by (induction ls arbitrary: w) auto

text \<open>
  C9. When an inbound event passes the checks, \<^verbatim>\<open>processInboundEvent\<close> returns
  accepted; the world is the one left by every registered listener run once, in
  registration order, whether or not it throws; the console holds one line for each value
  thrown; and \<^verbatim>\<open>onEvent\<close> registers a listener after those already registered.
\<close>

theorem listeners_all_notified:
  assumes "enabled (config m)" and "trustsInstance m src" and "origin e = src"
    and "truthy (verifyEventSignature L e)"
  shows "processInboundEvent L e src m w =
           (\<lparr>accepted = True, reason = None\<rparr>,
            foldl (\<lambda>w l. snd (l e w)) w (eventListeners m),
            map (\<lambda>ex. ''Event listener error: '' @ ex)
              (List.map_filter id (listenerOutcomes (eventListeners m) e w)))
         \<and> length (listenerOutcomes (eventListeners m) e w) = length (eventListeners m)
         \<and> eventListeners (onEvent l m) = eventListeners m @ [l]"
proof -
  obtain w' c where n: "notifyListeners (eventListeners m) e w [] = (w', c)"
    by (cases "notifyListeners (eventListeners m) e w []")
  have "w' = foldl (\<lambda>w l. snd (l e w)) w (eventListeners m)"
    using notifyListeners_world [of "eventListeners m" e w "[]"] n by simp
  moreover have "c = map (\<lambda>ex. ''Event listener error: '' @ ex)
              (List.map_filter id (listenerOutcomes (eventListeners m) e w))"
    using notifyListeners_console [of "eventListeners m" e w "[]"] n by simp
  ultimately show ?thesis
    using assms n by (simp add: processInboundEvent_def length_listenerOutcomes onEvent_def)
qed

theorem listeners_all_notified_witness:
  "enabled (config listeningManager) \<and> trustsInstance listeningManager ''https://x.example''
   \<and> origin genuineEvent = ''https://x.example''
   \<and> truthy (verifyEventSignature toyLibrary genuineEvent)
   \<and> processInboundEvent toyLibrary genuineEvent ''https://x.example'' listeningManager []
      = (\<lparr>accepted = True, reason = None\<rparr>, [genuineEvent, genuineEvent],
         [''Event listener error: boom''])"
proof -
  have v: "verifyEventSignature toyLibrary genuineEvent = Some ''key-x''"
    by (simp add: verifyEventSignature_def toyLibrary_def genuineEvent_def message_def)
  have l: "eventListeners listeningManager = [recordingListener, throwingListener, recordingListener]"
    by (simp add: listeningManager_def onEvent_def exampleManager_def newFederationManager_def)
  have c: "enabled (config listeningManager)" "trustsInstance listeningManager ''https://x.example''"
    by (simp_all add: listeningManager_def onEvent_def exampleManager_def newFederationManager_def
          createFederationConfig_def trustsInstance_def)
  have o: "origin genuineEvent = ''https://x.example''"
    by (simp add: genuineEvent_def)
  show ?thesis
    using listeners_all_notified [of listeningManager "''https://x.example''" genuineEvent
        toyLibrary "[]", OF c o] v
    by (simp add: c o l recordingListener_def throwingListener_def List.map_filter_simps)
qed

subsection \<open>Outbox pagination\<close>

lemma outboxLoop_found:
  "outboxLoop lim since q True evs cur =
     \<lparr>events = evs @ map (event \<circ> snd) (take (nat (max 1 (lim - int (length evs)))) q),
      cursor = (if q = [] then cur
                else Some (fst (last (take (nat (max 1 (lim - int (length evs)))) q))))\<rparr>"
proof (induction q arbitrary: evs cur)
  case Nil
  then show ?case by simp
next
  case (Cons p q)
  obtain i oe where p: "p = (i, oe)" by (cases p)
  show ?case
  proof (cases "lim \<le> int (length evs) + 1")
    case True
    then have "nat (max 1 (lim - int (length evs))) = Suc 0" by simp
    with True show ?thesis by (simp add: p)
  next
    case False
    define k where "k = nat (max 1 (lim - int (length (evs @ [event oe]))))"
    have k: "nat (max 1 (lim - int (length evs))) = Suc k" "0 < k"
      using False by (simp_all add: k_def)
    have e: "take k q = [] \<longleftrightarrow> q = []"
      using k(2) by (cases q) (auto simp: take_Suc_conv_app_nth)
    have "outboxLoop lim since (p # q) True evs cur
            = outboxLoop lim since q True (evs @ [event oe]) (Some i)"
      using False by (simp add: p)
    also have "\<dots> = \<lparr>events = (evs @ [event oe]) @ map (event \<circ> snd) (take k q),
        cursor = (if q = [] then Some i else Some (fst (last (take k q))))\<rparr>"
      unfolding k_def by (rule Cons.IH)
    finally show ?thesis
      using k(2) by (simp add: k(1) p e)
  qed
qed

lemma outboxLoop_seek:
  "outboxLoop lim (Some c) q False evs cur =
     (case dropWhile (\<lambda>p. fst p \<noteq> c) q of
        [] \<Rightarrow> \<lparr>events = evs, cursor = cur\<rparr>
      | _ # rest \<Rightarrow> outboxLoop lim (Some c) rest True evs cur)"
  by (induction q) auto

text \<open>
  What \<^verbatim>\<open>getOutboxEvents\<close> computes: the page of the log, or of the part of the log
  after the cursor; that part is empty when the cursor is not in the log.
\<close>

lemma getOutboxEvents_eq:
  "getOutboxEvents since limit m =
     pageOf (min (case limit of None \<Rightarrow> 50 | Some l \<Rightarrow> if l = 0 then 50 else l) 200)
       (case since of
          None \<Rightarrow> outboxQueue m
        | Some c \<Rightarrow> if c = [] then outboxQueue m else afterCursor c (outboxQueue m))"
proof (cases "truthy since")
  case False
  then show ?thesis
    by (cases since) (simp_all add: getOutboxEvents_def Let_def outboxLoop_found pageOf_def)
next
  case True
  then obtain c where c: "since = Some c" "c \<noteq> []" by (cases since) auto
  show ?thesis
    by (cases "dropWhile (\<lambda>p. fst p \<noteq> c) (outboxQueue m)")
       (simp_all add: c getOutboxEvents_def Let_def outboxLoop_seek outboxLoop_found pageOf_def
          afterCursor_def del: dropWhile_eq_Nil_conv)
qed

lemma afterCursor_missing: "c \<notin> fst ` set q \<Longrightarrow> afterCursor c q = []"
proof -
  assume "c \<notin> fst ` set q"
  then have "dropWhile (\<lambda>p. fst p \<noteq> c) q = []" by auto
  then show ?thesis by (simp add: afterCursor_def del: dropWhile_eq_Nil_conv)
qed

lemma afterCursor_split:
  assumes "distinct (map fst q)" and "q = pre @ (c, v) # post"
  shows "afterCursor c q = post"
proof -
  have "\<forall>p \<in> set pre. fst p \<noteq> c" using assms by auto
  then have "dropWhile (\<lambda>p. fst p \<noteq> c) q = (c, v) # post"
    by (simp add: assms(2) dropWhile_append3)
  then show ?thesis by (simp add: afterCursor_def)
qed

text \<open>
  The first half of C4 holds: with the cursor in the log, the page holds the events that
  follow the cursor's entry, in log order, up to the limit, and none at or before it.
\<close>

lemma getOutboxEvents_after_cursor:
  assumes "distinct (map fst (outboxQueue m))" and "outboxQueue m = pre @ (c, v) # post"
    and "c \<noteq> []"
  shows "events (getOutboxEvents (Some c) limit m) =
           map (event \<circ> snd)
             (take (nat (max 1 (min (case limit of None \<Rightarrow> 50
                                      | Some l \<Rightarrow> if l = 0 then 50 else l) 200))) post)"
  using assms by (simp add: getOutboxEvents_eq afterCursor_split pageOf_def)

lemma getOutboxEvents_unknown_cursor:
  assumes "c \<notin> fst ` set (outboxQueue m)" and "c \<noteq> []"
  shows "getOutboxEvents (Some c) limit m = \<lparr>events = [], cursor = None\<rparr>"
  using assms by (simp add: getOutboxEvents_eq afterCursor_missing pageOf_def)

lemma showNat_examples:
  "showNat (Suc 0) = ''1''" "showNat (Suc (Suc 0)) = ''2''"
  "showNat 500 = ''500''" "showNat 503 = ''503''"
  by code_simp+

declare showNat.simps [simp del]

lemmas publish_defs =
  outboxManager_def publishEvent_def signEvent_def message_def toyLibrary_def
  newFederationManager_def loadFromStorage_def loadFrom_def memoryReads_def emptyStorage_def
  getInstances_def storeGetOutboxEvents_def getPendingDeliveries_def slice0_def
  createFederationConfig_def persistOutboxEvent_def saveOutboxEvent_def Let_def
  signedEvent_def secondEvent_def showNat_examples

lemma outboxManager_state:
  "outboxQueue outboxManager =
     [(''https://a.example/outbox/1'',
       \<lparr>oid = ''https://a.example/outbox/1'', event = signedEvent, created = 1000,
        delivered = []\<rparr>),
      (''https://a.example/outbox/2'',
       \<lparr>oid = ''https://a.example/outbox/2'', event = secondEvent, created = 5000,
        delivered = []\<rparr>)]"
  "storage outboxManager = Some
     \<lparr>instances = [],
      outbox' =
        [(''https://a.example/outbox/1'',
          \<lparr>p_id = ''https://a.example/outbox/1'', p_event = signedEvent, p_created = 1000,
           deliveredTo = []\<rparr>),
         (''https://a.example/outbox/2'',
          \<lparr>p_id = ''https://a.example/outbox/2'', p_event = secondEvent, p_created = 5000,
           deliveredTo = []\<rparr>)],
      deliveryQueue' = []\<rparr>"
  "config outboxManager = createFederationConfig ''https://a.example'' True Open (Some ''key-a'')"
  "knownInstances outboxManager = []" "deliveryQueue outboxManager = []"
  "outboxIdCounter outboxManager = 2" "eventListeners outboxManager = []"
  by (simp_all add: publish_defs)

text \<open>
  C4, at a failing input. The cursor \<^verbatim>\<open>https://a.example/outbox/7\<close> is not in a log
  of two events. \<^verbatim>\<open>getOutboxEvents\<close> returns an empty page, not the page from the
  beginning of the log that a call without cursor returns; the same query on the store
  that holds the same log does start from the beginning.
\<close>

theorem unknown_cursor_empty_page:
  "\<not> has ''https://a.example/outbox/7'' (outboxQueue outboxManager)
   \<and> getOutboxEvents (Some ''https://a.example/outbox/7'') None outboxManager
       = \<lparr>events = [], cursor = None\<rparr>
   \<and> getOutboxEvents None None outboxManager
       = \<lparr>events = [signedEvent, secondEvent], cursor = Some ''https://a.example/outbox/2''\<rparr>
   \<and> map p_event (storeGetOutboxEvents None (Some ''https://a.example/outbox/7'')
        (the (storage outboxManager))) = [signedEvent, secondEvent]"
proof -
  have q: "outboxQueue outboxManager =
        [(''https://a.example/outbox/1'',
          \<lparr>oid = ''https://a.example/outbox/1'', event = signedEvent, created = 1000,
           delivered = []\<rparr>),
         (''https://a.example/outbox/2'',
          \<lparr>oid = ''https://a.example/outbox/2'', event = secondEvent, created = 5000,
           delivered = []\<rparr>)]"
    by (simp add: outboxManager_state)
  have 1: "\<not> has ''https://a.example/outbox/7'' (outboxQueue outboxManager)"
    by (simp add: q has_def)
  have 2: "getOutboxEvents (Some ''https://a.example/outbox/7'') None outboxManager
       = \<lparr>events = [], cursor = None\<rparr>"
    by (simp add: getOutboxEvents_def q)
  have 3: "getOutboxEvents None None outboxManager
       = \<lparr>events = [signedEvent, secondEvent], cursor = Some ''https://a.example/outbox/2''\<rparr>"
    by (simp add: getOutboxEvents_def q)
  have 4: "map p_event (storeGetOutboxEvents None (Some ''https://a.example/outbox/7'')
        (the (storage outboxManager))) = [signedEvent, secondEvent]"
    by (simp add: outboxManager_state storeGetOutboxEvents_def slice0_def)
  show ?thesis using 1 2 3 4 by simp
qed

subsection \<open>Enqueueing deliveries\<close>

lemma has_update [simp]: "has k (AList.update k' v q) = (k = k' \<or> has k q)"
  by (auto simp: has_def dom_update)

lemma deliveryQueue_persistDeliveryAttempt [simp]:
  "deliveryQueue (persistDeliveryAttempt k a m) = deliveryQueue m"
  by (simp add: persistDeliveryAttempt_def split: option.splits)

lemma config_persistDeliveryAttempt [simp]:
  "config (persistDeliveryAttempt k a m) = config m"
  by (simp add: persistDeliveryAttempt_def split: option.splits)

lemma knownInstances_persistDeliveryAttempt [simp]:
  "knownInstances (persistDeliveryAttempt k a m) = knownInstances m"
  by (simp add: persistDeliveryAttempt_def split: option.splits)









lemma set_update_cases:
  "(k, a) \<in> set (AList.update k' v q) \<Longrightarrow> (k, a) \<in> set q \<or> (k = k' \<and> a = v)"
  by (induction q) (auto split: if_splits)







subsection \<open>Draining the delivery queue\<close>

lemma persistInstance_keeps [simp]:
  "deliveryQueue (persistInstance i m) = deliveryQueue m"
  "outboxQueue (persistInstance i m) = outboxQueue m"
  "knownInstances (persistInstance i m) = knownInstances m"
  by (simp_all add: persistInstance_def split: option.splits)

lemma persistOutboxEvent_keeps [simp]:
  "deliveryQueue (persistOutboxEvent e m) = deliveryQueue m"
  "outboxQueue (persistOutboxEvent e m) = outboxQueue m"
  "config (persistOutboxEvent e m) = config m"
  by (simp_all add: persistOutboxEvent_def split: option.splits)

lemma outboxQueue_persistDeliveryAttempt [simp]:
  "outboxQueue (persistDeliveryAttempt k a m) = outboxQueue m"
  by (simp add: persistDeliveryAttempt_def split: option.splits)

lemma discoverInstance_keeps:
  "deliveryQueue (fst (snd (discoverInstance net u m w))) = deliveryQueue m
   \<and> outboxQueue (fst (snd (discoverInstance net u m w))) = outboxQueue m"
  by (simp add: discoverInstance_def Let_def split: prod.splits WellKnownResponse.splits option.splits)

lemma pushPost_keeps:
  "deliveryQueue (fst (snd (pushPost net e u i m w))) = deliveryQueue m
   \<and> outboxQueue (fst (snd (pushPost net e u i m w))) = outboxQueue m"
  by (simp add: pushPost_def Let_def split: prod.splits PostResponse.splits)

lemma pushToInstance_keeps:
  "deliveryQueue (fst (snd (pushToInstance net e u m w))) = deliveryQueue m
   \<and> outboxQueue (fst (snd (pushToInstance net e u m w))) = outboxQueue m"
proof -
  obtain r m' w' where d: "discoverInstance net u m w = (r, m', w')"
    by (cases "discoverInstance net u m w")
  have k: "deliveryQueue m' = deliveryQueue m" "outboxQueue m' = outboxQueue m"
    using discoverInstance_keeps [of net u m w] d by simp_all
  show ?thesis
    by (simp add: pushToInstance_def d k pushPost_keeps split: option.splits)
qed

lemma recordOutcome_other:
  "k' \<noteq> k \<Longrightarrow>
   map_of (deliveryQueue (snd (recordOutcome now k' a oe r (res, m)))) k = map_of (deliveryQueue m) k"
  by (simp add: recordOutcome_def Let_def update_conv')

lemma recordOutcome_keys:
  "fst ` set (deliveryQueue (snd (recordOutcome now k a oe r (res, m))))
     = insert k (fst ` set (deliveryQueue m))"
  by (simp add: recordOutcome_def Let_def dom_update)

lemma recordOutcome_distinct:
  "distinct (map fst (deliveryQueue m)) \<Longrightarrow>
   distinct (map fst (deliveryQueue (snd (recordOutcome now k a oe r (res, m)))))"
  by (simp add: recordOutcome_def Let_def distinct_update)

lemma recordOutcome_failure:
  "\<not> success r \<Longrightarrow>
   map_of (deliveryQueue (snd (recordOutcome now k a oe r (res, m)))) k
     = Some (failedOnce now (error r) a)"
  by (simp add: recordOutcome_def Let_def update_conv' failedOnce_def)

lemma mutateFirst_ids:
  "oid oe' = e \<Longrightarrow>
   map (oid \<circ> snd) (mutateFirst (\<lambda>x. oid x = e) (\<lambda>_. oe') q) = map (oid \<circ> snd) q"
  by (induction q) auto

lemma recordOutcome_ids:
  "oid oe = eventId a \<Longrightarrow>
   map (oid \<circ> snd) (outboxQueue (snd (recordOutcome now k a oe r (res, m))))
     = map (oid \<circ> snd) (outboxQueue m)"
  by (simp add: recordOutcome_def Let_def mutateFirst_ids)

lemma find_oid: "find (\<lambda>x. oid x = e) xs = Some oe \<Longrightarrow> oid oe = e"
  by (induction xs) (auto split: if_splits)

lemma inOutbox_ids: "inOutbox m e = (e \<in> set (map (oid \<circ> snd) (outboxQueue m)))"
  by (auto simp: inOutbox_def find_None_iff)

lemma deliverOne_cases:
  obtains
    (skip) "deliverOne net now k (res, m, w) = (res, m, w)"
      and "\<forall>a. attemptAt m k = Some a \<longrightarrow> status a \<noteq> Pending \<or> now < nextAttempt a"
  | (drop) a where "attemptAt m k = Some a" and "status a = Pending" and "nextAttempt a \<le> now"
      and "\<not> inOutbox m (eventId a)"
      and "deliverOne net now k (res, m, w)
             = (res, m\<lparr>deliveryQueue := AList.delete k (deliveryQueue m)\<rparr>, w)"
  | (push) a oe r m1 w1 res' m' where "attemptAt m k = Some a" and "status a = Pending"
      and "nextAttempt a \<le> now" and "oid oe = eventId a"
      and "pushToInstance net (event oe) (instanceUri' a) m w = (r, m1, w1)"
      and "recordOutcome now k a oe r (res, m1) = (res', m')"
      and "deliverOne net now k (res, m, w) = (res', m', w1)"
      and "find (\<lambda>oe. oid oe = eventId a) (map snd (outboxQueue m)) = Some oe"
proof (cases "map_of (deliveryQueue m) k")
  case None
  then show ?thesis using skip by (simp add: deliverOne_def attemptAt_def)
next
  case (Some a)
  show ?thesis
  proof (cases "status a \<noteq> Pending \<or> now < nextAttempt a")
    case True
    then show ?thesis using skip Some by (auto simp: deliverOne_def attemptAt_def)
  next
    case False
    show ?thesis
    proof (cases "find (\<lambda>oe. oid oe = eventId a) (map snd (outboxQueue m))")
      case None
      then show ?thesis using drop [of a] Some False
        by (simp add: deliverOne_def attemptAt_def inOutbox_def)
    next
      case (Some oe)
      obtain r m1 w1 where p: "pushToInstance net (event oe) (instanceUri' a) m w = (r, m1, w1)"
        by (cases "pushToInstance net (event oe) (instanceUri' a) m w")
      obtain res' m' where ro: "recordOutcome now k a oe r (res, m1) = (res', m')"
        by (cases "recordOutcome now k a oe r (res, m1)")
      show ?thesis
        using push [of a oe r m1 w1 res' m'] \<open>map_of (deliveryQueue m) k = Some a\<close> False Some
          p ro find_oid [OF Some]
        by (simp add: deliverOne_def attemptAt_def)
    qed
  qed
qed

lemma deliverOne_other:
  assumes "k' \<noteq> k"
  shows "attemptAt (fst (snd (deliverOne net now k' st))) k = attemptAt (fst (snd st)) k"
proof -
  obtain res m w where st: "st = (res, m, w)" by (cases st)
  show ?thesis
  proof (cases rule: deliverOne_cases [of net now k' res m w])
    case skip
    then show ?thesis by (simp add: st)
  next
    case (drop a)
    then show ?thesis using assms by (simp add: st attemptAt_def delete_conv')
  next
    case (push a oe r m1 w1 res' m')
    have "deliveryQueue m1 = deliveryQueue m"
      using pushToInstance_keeps [of net "event oe" "instanceUri' a" m w] push(5) by simp
    moreover have "map_of (deliveryQueue m') k = map_of (deliveryQueue m1) k"
      using recordOutcome_other [OF assms, of now a oe r res m1] push(6) by simp
    ultimately show ?thesis using push(7) by (simp add: st attemptAt_def)
  qed
qed

lemma deliverOne_ids:
  "map (oid \<circ> snd) (outboxQueue (fst (snd (deliverOne net now k st))))
     = map (oid \<circ> snd) (outboxQueue (fst (snd st)))"
proof -
  obtain res m w where st: "st = (res, m, w)" by (cases st)
  show ?thesis
  proof (cases rule: deliverOne_cases [of net now k res m w])
    case skip
    then show ?thesis by (simp add: st)
  next
    case (drop a)
    then show ?thesis by (simp add: st)
  next
    case (push a oe r m1 w1 res' m')
    have "outboxQueue m1 = outboxQueue m"
      using pushToInstance_keeps [of net "event oe" "instanceUri' a" m w] push(5) by simp
    moreover have "map (oid \<circ> snd) (outboxQueue m') = map (oid \<circ> snd) (outboxQueue m1)"
      using recordOutcome_ids [OF push(4), of now k r res m1] push(6) by simp
    ultimately show ?thesis using push(7) by (simp add: st)
  qed
qed

lemma deliverOne_distinct:
  assumes "distinct (map fst (deliveryQueue (fst (snd st))))"
  shows "distinct (map fst (deliveryQueue (fst (snd (deliverOne net now k st)))))"
proof -
  obtain res m w where st: "st = (res, m, w)" by (cases st)
  show ?thesis
  proof (cases rule: deliverOne_cases [of net now k res m w])
    case skip
    then show ?thesis using assms by (simp add: st)
  next
    case (drop a)
    then show ?thesis using assms by (simp add: st distinct_delete)
  next
    case (push a oe r m1 w1 res' m')
    have "deliveryQueue m1 = deliveryQueue m"
      using pushToInstance_keeps [of net "event oe" "instanceUri' a" m w] push(5) by simp
    then have "distinct (map fst (deliveryQueue m1))" using assms by (simp add: st)
    from recordOutcome_distinct [OF this, of now k a oe r res] show ?thesis
      using push(6,7) by (simp add: st)
  qed
qed

lemma pushOf_due:
  assumes "pushOf net now k (res, m, w) = Some r" and "attemptAt m k = Some a"
  shows "status a = Pending \<and> nextAttempt a \<le> now \<and> inOutbox m (eventId a)"
  using assms
  by (auto simp: pushOf_def attemptAt_def inOutbox_def split: if_splits option.splits)

lemma pushOf_none:
  "attemptAt m k = None \<or> (\<exists>a. attemptAt m k = Some a \<and> status a \<noteq> Pending) \<Longrightarrow>
   pushOf net now k (res, m, w) = None"
  by (auto simp: pushOf_def attemptAt_def)

text \<open>
  The loop body at an entry whose push it makes and which fails: the entry becomes the
  attempt with one more failure, at the time of the cycle and with the error of that push.
\<close>

lemma deliverOne_failure:
  assumes "attemptAt m k = Some a" and "pushOf net now k (res, m, w) = Some r"
    and "\<not> success r"
  shows "attemptAt (fst (snd (deliverOne net now k (res, m, w)))) k
           = Some (failedOnce now (error r) a)"
proof (cases rule: deliverOne_cases [of net now k res m w])
  case skip
  then show ?thesis using assms(1) pushOf_due [OF assms(2,1)] by auto
next
  case (drop b)
  then show ?thesis using assms(1) pushOf_due [OF assms(2,1)] by simp
next
  case (push b oe r' m1 w1 res' m')
  have b: "b = a" using push(1) assms(1) by simp
  have "pushOf net now k (res, m, w)
          = Some (fst (pushToInstance net (event oe) (instanceUri' a) m w))"
    using assms(1) push(2,3,8) b by (simp add: pushOf_def attemptAt_def)
  then have r: "r' = r" using assms(2) push(5) b by simp
  have "map_of (deliveryQueue m') k = Some (failedOnce now (error r) a)"
    using recordOutcome_failure [OF assms(3), of now k a oe res m1] push(6) b r by simp
  then show ?thesis using push(7) by (simp add: attemptAt_def)
qed

lemma deliverOne_terminal:
  assumes "attemptAt m k = Some a" and "status a \<noteq> Pending"
  shows "deliverOne net now k (res, m, w) = (res, m, w)"
  using assms by (simp add: deliverOne_def attemptAt_def)

lemma deliverOne_absent:
  assumes "attemptAt (fst (snd st)) k = None"
  shows "attemptAt (fst (snd (deliverOne net now k' st))) k = None"
proof (cases "k' = k")
  case True
  obtain res m w where st: "st = (res, m, w)" by (cases st)
  show ?thesis using assms True by (simp add: st deliverOne_def attemptAt_def)
next
  case False
  then show ?thesis using assms by (simp add: deliverOne_other)
qed

lemma fold_deliverOne_other:
  "k \<notin> set ks \<Longrightarrow>
   attemptAt (fst (snd (fold (deliverOne net now) ks st))) k = attemptAt (fst (snd st)) k"
  by (induction ks arbitrary: st) (auto simp: deliverOne_other)

lemma fold_deliverOne_ids:
  "map (oid \<circ> snd) (outboxQueue (fst (snd (fold (deliverOne net now) ks st))))
     = map (oid \<circ> snd) (outboxQueue (fst (snd st)))"
  by (induction ks arbitrary: st) (simp_all add: deliverOne_ids)

lemma fold_deliverOne_distinct:
  "distinct (map fst (deliveryQueue (fst (snd st)))) \<Longrightarrow>
   distinct (map fst (deliveryQueue (fst (snd (fold (deliverOne net now) ks st)))))"
  by (induction ks arbitrary: st) (simp_all add: deliverOne_distinct)

lemma fold_deliverOne_absent:
  "attemptAt (fst (snd st)) k = None \<Longrightarrow>
   attemptAt (fst (snd (fold (deliverOne net now) ks st))) k = None"
  by (induction ks arbitrary: st) (simp_all add: deliverOne_absent)

lemma fold_deliverOne_terminal:
  "attemptAt (fst (snd st)) k = Some a \<Longrightarrow> status a \<noteq> Pending \<Longrightarrow>
   attemptAt (fst (snd (fold (deliverOne net now) ks st))) k = Some a"
proof (induction ks arbitrary: st)
  case Nil
  then show ?case by simp
next
  case (Cons k' ks)
  obtain res m w where st: "st = (res, m, w)" by (cases st)
  have "attemptAt (fst (snd (deliverOne net now k' st))) k = Some a"
  proof (cases "k' = k")
    case True
    then show ?thesis using Cons.prems deliverOne_terminal [of m k a net now res w] by (simp add: st)
  next
    case False
    then show ?thesis using Cons.prems by (simp add: deliverOne_other)
  qed
  from Cons.IH [OF this Cons.prems(2)] show ?case by simp
qed

lemma keys_split:
  assumes "k \<in> set ks"
  shows "ks = takeWhile (\<lambda>k'. k' \<noteq> k) ks @ k # tl (dropWhile (\<lambda>k'. k' \<noteq> k) ks)"
proof -
  have n: "dropWhile (\<lambda>k'. k' \<noteq> k) ks \<noteq> []"
    using assms by (auto simp: dropWhile_eq_Nil_conv)
  then have "hd (dropWhile (\<lambda>k'. k' \<noteq> k) ks) = k"
    using hd_dropWhile [of "\<lambda>k'. k' \<noteq> k" ks] by simp
  then have "dropWhile (\<lambda>k'. k' \<noteq> k) ks = k # tl (dropWhile (\<lambda>k'. k' \<noteq> k) ks)"
    using n by (cases "dropWhile (\<lambda>k'. k' \<noteq> k) ks") simp_all
  then show ?thesis
    using takeWhile_dropWhile_id [of "\<lambda>k'. k' \<noteq> k" ks] by simp
qed

lemma before_entry:
  "attemptAt (fst (snd (fold (deliverOne net now) (takeWhile (\<lambda>k'. k' \<noteq> k) ks) st))) k
     = attemptAt (fst (snd st)) k"
  by (rule fold_deliverOne_other) (auto dest: set_takeWhileD)

lemma fold_deliverOne_failure:
  assumes "distinct ks" and "k \<in> set ks" and "attemptAt (fst (snd st)) k = Some a"
    and "pushOf net now k (fold (deliverOne net now) (takeWhile (\<lambda>k'. k' \<noteq> k) ks) st) = Some r"
    and "\<not> success r"
  shows "attemptAt (fst (snd (fold (deliverOne net now) ks st))) k
           = Some (failedOnce now (error r) a)"
proof -
  define pre where "pre = takeWhile (\<lambda>k'. k' \<noteq> k) ks"
  define post where "post = tl (dropWhile (\<lambda>k'. k' \<noteq> k) ks)"
  have ks: "ks = pre @ k # post"
    unfolding pre_def post_def by (rule keys_split [OF assms(2)])
  have n: "k \<notin> set post" using assms(1) ks by auto
  define st1 where "st1 = fold (deliverOne net now) pre st"
  obtain res1 m1 w1 where st1: "st1 = (res1, m1, w1)" by (cases st1)
  have a1: "attemptAt m1 k = Some a"
    using before_entry [of net now k ks st] assms(3) st1 by (simp add: st1_def pre_def)
  have p: "pushOf net now k (res1, m1, w1) = Some r"
    using assms(4) st1 by (simp add: st1_def pre_def)
  have "attemptAt (fst (snd (deliverOne net now k st1))) k = Some (failedOnce now (error r) a)"
    using deliverOne_failure [OF a1 p assms(5)] by (simp add: st1)
  then have "attemptAt (fst (snd (fold (deliverOne net now) post (deliverOne net now k st1)))) k
                 = Some (failedOnce now (error r) a)"
    by (simp add: fold_deliverOne_other [OF n])
  moreover have "fold (deliverOne net now) ks st
                   = fold (deliverOne net now) post (deliverOne net now k st1)"
    by (subst ks) (simp add: st1_def)
  ultimately show ?thesis by simp
qed

lemma pruneOne_at:
  "attemptAt (pruneOne now k' m) k =
     (case attemptAt m k of
        None \<Rightarrow> None
      | Some a \<Rightarrow> if k' = k \<and> expired now a then None else Some a)"
proof (cases "k' = k")
  case True
  then show ?thesis
    by (simp add: pruneOne_def attemptAt_def expired_def delete_conv' split: option.splits)
next
  case False
  then show ?thesis
    by (cases "map_of (deliveryQueue m) k'")
       (simp_all add: pruneOne_def attemptAt_def delete_conv' split: option.splits)
qed

lemma fold_pruneOne_at:
  "attemptAt (fold (pruneOne now) ks m) k =
     (case attemptAt m k of
        None \<Rightarrow> None
      | Some a \<Rightarrow> if k \<in> set ks \<and> expired now a then None else Some a)"
proof (induction ks arbitrary: m)
  case Nil
  then show ?case by (simp split: option.splits)
next
  case (Cons k' ks)
  show ?case
    by (simp add: Cons.IH pruneOne_at split: option.splits)
qed

lemma pruneOne_keeps:
  "outboxQueue (pruneOne now k m) = outboxQueue m"
  by (simp add: pruneOne_def split: option.splits)

lemma fold_pruneOne_keeps:
  "outboxQueue (fold (pruneOne now) ks m) = outboxQueue m"
  by (induction ks arbitrary: m) (simp_all add: pruneOne_keeps)

lemma pruneOne_distinct:
  "distinct (map fst (deliveryQueue m)) \<Longrightarrow> distinct (map fst (deliveryQueue (pruneOne now k m)))"
  by (simp add: pruneOne_def distinct_delete split: option.splits)

lemma fold_pruneOne_distinct:
  "distinct (map fst (deliveryQueue m)) \<Longrightarrow>
   distinct (map fst (deliveryQueue (fold (pruneOne now) ks m)))"
  by (induction ks arbitrary: m) (simp_all add: pruneOne_distinct)

lemma cycle_eq:
  "fst (snd (processDeliveryQueue net m w))
     = fold (pruneOne (clock net w)) (map fst (deliveryQueue (afterLoop net m w))) (afterLoop net m w)"
  by (simp add: processDeliveryQueue_def afterLoop_def Let_def split: prod.splits)

lemma attemptAt_key: "attemptAt m k = Some a \<Longrightarrow> k \<in> set (map fst (deliveryQueue m))"
  by (auto simp: attemptAt_def dest!: map_of_SomeD intro: rev_image_eqI)

lemma cycle_at:
  "attemptAt (fst (snd (processDeliveryQueue net m w))) k =
     (case attemptAt (afterLoop net m w) k of
        None \<Rightarrow> None
      | Some a \<Rightarrow> if expired (clock net w) a then None else Some a)"
  by (auto simp: cycle_eq fold_pruneOne_at dest: attemptAt_key split: option.splits)

lemma cycle_distinct:
  "distinct (map fst (deliveryQueue m)) \<Longrightarrow>
   distinct (map fst (deliveryQueue (fst (snd (processDeliveryQueue net m w)))))"
  by (simp add: cycle_eq fold_pruneOne_distinct afterLoop_def fold_deliverOne_distinct)

lemma cycle_inOutbox:
  "inOutbox (fst (snd (processDeliveryQueue net m w))) e = inOutbox m e"
  by (simp add: inOutbox_ids cycle_eq fold_pruneOne_keeps afterLoop_def fold_deliverOne_ids)

lemma cycle_absent:
  "attemptAt m k = None \<Longrightarrow> attemptAt (fst (snd (processDeliveryQueue net m w))) k = None"
  by (simp add: cycle_at afterLoop_def fold_deliverOne_absent)

lemma cycle_terminal:
  "attemptAt m k = Some a \<Longrightarrow> status a \<noteq> Pending \<Longrightarrow>
   attemptAt (fst (snd (processDeliveryQueue net m w))) k = Some a
   \<or> attemptAt (fst (snd (processDeliveryQueue net m w))) k = None"
  by (simp add: cycle_at afterLoop_def fold_deliverOne_terminal)

lemma cycle_idle:
  assumes "attemptAt m k = Some a" and "status a = Pending" and "clock net w < nextAttempt a"
  shows "attemptAt (fst (snd (processDeliveryQueue net m w))) k = Some a"
proof -
  have "attemptAt (fst (snd (fold (deliverOne net (clock net w)) ks st))) k = Some a"
    if "attemptAt (fst (snd st)) k = Some a" for ks st
    using that
  proof (induction ks arbitrary: st)
    case Nil
    then show ?case by simp
  next
    case (Cons k' ks)
    obtain res m' w' where st: "st = (res, m', w')" by (cases st)
    have "attemptAt (fst (snd (deliverOne net (clock net w) k' st))) k = Some a"
    proof (cases "k' = k")
      case True
      then show ?thesis using Cons.prems assms(2,3)
        by (simp add: st deliverOne_def attemptAt_def)
    next
      case False
      then show ?thesis using Cons.prems by (simp add: deliverOne_other)
    qed
    from Cons.IH [OF this] show ?case by simp
  qed
  then have "attemptAt (afterLoop net m w) k = Some a"
    using assms(1) by (simp add: afterLoop_def)
  then show ?thesis using assms(2) by (simp add: cycle_at expired_def)
qed

lemma drainCycles_append:
  "drainCycles net (ws @ ws') m = drainCycles net ws' (drainCycles net ws m)"
  by (induction ws arbitrary: m) simp_all

lemma drainCycles_absent:
  "attemptAt m k = None \<Longrightarrow> attemptAt (drainCycles net ws m) k = None"
  by (induction ws arbitrary: m) (simp_all add: cycle_absent)

lemma drainCycles_terminal:
  "attemptAt m k = Some a \<Longrightarrow> status a \<noteq> Pending \<Longrightarrow>
   attemptAt (drainCycles net ws m) k = Some a \<or> attemptAt (drainCycles net ws m) k = None"
proof (induction ws arbitrary: m)
  case Nil
  then show ?case by simp
next
  case (Cons w ws)
  from cycle_terminal [OF Cons.prems, of net w] show ?case
  proof
    assume "attemptAt (fst (snd (processDeliveryQueue net m w))) k = Some a"
    from Cons.IH [OF this Cons.prems(2)] show ?thesis by simp
  next
    assume "attemptAt (fst (snd (processDeliveryQueue net m w))) k = None"
    then show ?thesis by (simp add: drainCycles_absent)
  qed
qed

lemma failedOnce_retry:
  assumes "attemptCount a < 4"
  shows "status (failedOnce now e a) = status a"
    and "attemptCount (failedOnce now e a) = attemptCount a + 1"
    and "nextAttempt (failedOnce now e a) = now + RETRY_BACKOFF_MS ! attemptCount a"
    and "eventId (failedOnce now e a) = eventId a"
    and "instanceUri' (failedOnce now e a) = instanceUri' a"
    and "lastAttempt (failedOnce now e a) = now"
    and "lastError (failedOnce now e a) = e"
  using assms by (simp_all add: failedOnce_def MAX_RETRY_ATTEMPTS_def RETRY_BACKOFF_MS_def)

lemma failedOnce_final:
  assumes "4 \<le> attemptCount a"
  shows "status (failedOnce now e a) = Failed"
    and "attemptCount (failedOnce now e a) = attemptCount a + 1"
    and "nextAttempt (failedOnce now e a) = nextAttempt a"
    and "lastAttempt (failedOnce now e a) = now"
    and "lastError (failedOnce now e a) = e"
  using assms by (simp_all add: failedOnce_def MAX_RETRY_ATTEMPTS_def)

lemma cyclePush_due:
  assumes "cyclePush net m w k = Some r" and "attemptAt m k = Some a"
  shows "status a = Pending \<and> nextAttempt a \<le> clock net w"
proof -
  define st1 where "st1 = fold (deliverOne net (clock net w))
      (takeWhile (\<lambda>k'. k' \<noteq> k) (map fst (deliveryQueue m)))
      (\<lparr>processed = 0, succeeded = 0, failed = 0\<rparr>, m, w)"
  obtain res1 m1 w1 where st1: "st1 = (res1, m1, w1)" by (cases st1)
  have "attemptAt m1 k = Some a"
    using before_entry [of net "clock net w" k "map fst (deliveryQueue m)"
        "(\<lparr>processed = 0, succeeded = 0, failed = 0\<rparr>, m, w)"] assms(2) st1
    by (simp add: st1_def)
  moreover have "pushOf net (clock net w) k (res1, m1, w1) = Some r"
    using assms(1) st1 by (simp add: cyclePush_def st1_def)
  ultimately show ?thesis
    using pushOf_due [of net "clock net w" k res1 m1 w1 r a] by simp
qed

lemma cyclePush_none:
  assumes "attemptAt m k = None \<or> (\<exists>a. attemptAt m k = Some a \<and> status a \<noteq> Pending)"
  shows "cyclePush net m w k = None"
proof -
  define st1 where "st1 = fold (deliverOne net (clock net w))
      (takeWhile (\<lambda>k'. k' \<noteq> k) (map fst (deliveryQueue m)))
      (\<lparr>processed = 0, succeeded = 0, failed = 0\<rparr>, m, w)"
  obtain res1 m1 w1 where st1: "st1 = (res1, m1, w1)" by (cases st1)
  have "attemptAt m1 k = attemptAt m k"
    using before_entry [of net "clock net w" k "map fst (deliveryQueue m)"
        "(\<lparr>processed = 0, succeeded = 0, failed = 0\<rparr>, m, w)"] st1
    by (simp add: st1_def)
  then have "pushOf net (clock net w) k (res1, m1, w1) = None"
    using assms by (intro pushOf_none) simp
  then show ?thesis using st1 by (simp add: cyclePush_def st1_def)
qed

text \<open>One cycle whose push for the entry fails, with what the next cycle needs.\<close>

lemma cycle_failure:
  assumes "distinct (map fst (deliveryQueue m))" and "attemptAt m k = Some a"
    and "cyclePush net m w k = Some r" and "\<not> success r"
  shows "attemptAt (fst (snd (processDeliveryQueue net m w))) k
           = Some (failedOnce (clock net w) (error r) a)
         \<and> distinct (map fst (deliveryQueue (fst (snd (processDeliveryQueue net m w)))))
         \<and> status a = Pending"
proof -
  have "attemptAt (afterLoop net m w) k = Some (failedOnce (clock net w) (error r) a)"
    using fold_deliverOne_failure [OF assms(1) attemptAt_key [OF assms(2)], of
        "(\<lparr>processed = 0, succeeded = 0, failed = 0\<rparr>, m, w)" a net "clock net w" r]
      assms(2-4)
    by (simp add: afterLoop_def cyclePush_def)
  moreover have "\<not> expired (clock net w) (failedOnce (clock net w) (error r) a)"
    by (simp add: expired_def failedOnce_def)
  ultimately have "attemptAt (fst (snd (processDeliveryQueue net m w))) k
                 = Some (failedOnce (clock net w) (error r) a)"
    by (simp add: cycle_at)
  then show ?thesis
    using cycle_distinct [OF assms(1), of net w] cyclePush_due [OF assms(3,2)] by simp
qed

lemma drainCycles_no_push:
  assumes "attemptAt m k = Some a" and "status a \<noteq> Pending"
  shows "cyclePush net (drainCycles net ws m) w k = None"
proof -
  from drainCycles_terminal [OF assms, of net ws]
  have "attemptAt (drainCycles net ws m) k = None
        \<or> (\<exists>b. attemptAt (drainCycles net ws m) k = Some b \<and> status b \<noteq> Pending)"
    using assms(2) by auto
  then show ?thesis by (rule cyclePush_none)
qed

text \<open>
  C3. A delivery attempt with attempt count 0 for which five drain cycles, run one after
  the other, each make the push and see it fail, with the results \<open>r1\<close> to \<open>r5\<close>
  (whatever the pushes for the other entries of the queue do): after each of the first
  four cycles it is still pending, with \<open>nextAttempt\<close> the time of the cycle plus 1 s,
  5 s, 30 s and 2 min (the ladder at index attempt count - 1) and the error of that
  cycle's push as its last error; the fifth failure makes it failed, with attempt count 5
  and the error of the fifth push as its last error; whatever cycles follow, none makes a
  push for it again and the entry never changes (it is only pruned).
\<close>

theorem retry_ladder:
  assumes "distinct (map fst (deliveryQueue m))"
    and "attemptAt m k = Some a" and "attemptCount a = 0"
    and "failingCycles net k [(w1, r1), (w2, r2), (w3, r3), (w4, r4), (w5, r5)] m"
  shows "\<exists>a1 a2 a3 a4 a5.
      attemptAt (drainCycles net [w1] m) k = Some a1
      \<and> status a1 = Pending \<and> attemptCount a1 = 1 \<and> nextAttempt a1 = clock net w1 + 1000
      \<and> lastError a1 = error r1
      \<and> attemptAt (drainCycles net [w1, w2] m) k = Some a2
      \<and> status a2 = Pending \<and> attemptCount a2 = 2 \<and> nextAttempt a2 = clock net w2 + 5000
      \<and> lastError a2 = error r2
      \<and> attemptAt (drainCycles net [w1, w2, w3] m) k = Some a3
      \<and> status a3 = Pending \<and> attemptCount a3 = 3 \<and> nextAttempt a3 = clock net w3 + 30000
      \<and> lastError a3 = error r3
      \<and> attemptAt (drainCycles net [w1, w2, w3, w4] m) k = Some a4
      \<and> status a4 = Pending \<and> attemptCount a4 = 4 \<and> nextAttempt a4 = clock net w4 + 120000
      \<and> lastError a4 = error r4
      \<and> attemptAt (drainCycles net [w1, w2, w3, w4, w5] m) k = Some a5
      \<and> status a5 = Failed \<and> attemptCount a5 = 5 \<and> lastAttempt a5 = clock net w5
      \<and> lastError a5 = error r5
      \<and> (\<forall>ws. attemptAt (drainCycles net ([w1, w2, w3, w4, w5] @ ws) m) k = Some a5
              \<or> attemptAt (drainCycles net ([w1, w2, w3, w4, w5] @ ws) m) k = None)
      \<and> (\<forall>ws w. cyclePush net (drainCycles net ([w1, w2, w3, w4, w5] @ ws) m) w k = None)"
proof -
  let ?t = "clock net"
  define m1 where "m1 = fst (snd (processDeliveryQueue net m w1))"
  define m2 where "m2 = fst (snd (processDeliveryQueue net m1 w2))"
  define m3 where "m3 = fst (snd (processDeliveryQueue net m2 w3))"
  define m4 where "m4 = fst (snd (processDeliveryQueue net m3 w4))"
  define m5 where "m5 = fst (snd (processDeliveryQueue net m4 w5))"
  have f: "cyclePush net m w1 k = Some r1" "\<not> success r1"
      "cyclePush net m1 w2 k = Some r2" "\<not> success r2"
      "cyclePush net m2 w3 k = Some r3" "\<not> success r3"
      "cyclePush net m3 w4 k = Some r4" "\<not> success r4"
      "cyclePush net m4 w5 k = Some r5" "\<not> success r5"
    using assms(4) by (simp_all add: m1_def m2_def m3_def m4_def)
  define a1 where "a1 = failedOnce (?t w1) (error r1) a"
  define a2 where "a2 = failedOnce (?t w2) (error r2) a1"
  define a3 where "a3 = failedOnce (?t w3) (error r3) a2"
  define a4 where "a4 = failedOnce (?t w4) (error r4) a3"
  define a5 where "a5 = failedOnce (?t w5) (error r5) a4"
  have 1: "attemptAt m1 k = Some a1" "distinct (map fst (deliveryQueue m1))" "status a = Pending"
    using cycle_failure [OF assms(1,2) f(1,2)] by (simp_all add: m1_def a1_def)
  have a1: "status a1 = Pending" "attemptCount a1 = 1" "nextAttempt a1 = ?t w1 + 1000"
      "lastError a1 = error r1"
    using assms(3) 1(3) by (simp_all add: a1_def failedOnce_retry RETRY_BACKOFF_MS_def)
  have 2: "attemptAt m2 k = Some a2" "distinct (map fst (deliveryQueue m2))"
    using cycle_failure [OF 1(2,1) f(3,4)] by (simp_all add: m2_def a2_def)
  have a2: "status a2 = Pending" "attemptCount a2 = 2" "nextAttempt a2 = ?t w2 + 5000"
      "lastError a2 = error r2"
    using a1 by (simp_all add: a2_def failedOnce_retry RETRY_BACKOFF_MS_def)
  have 3: "attemptAt m3 k = Some a3" "distinct (map fst (deliveryQueue m3))"
    using cycle_failure [OF 2(2,1) f(5,6)] by (simp_all add: m3_def a3_def)
  have a3: "status a3 = Pending" "attemptCount a3 = 3" "nextAttempt a3 = ?t w3 + 30000"
      "lastError a3 = error r3"
    using a2 by (simp_all add: a3_def failedOnce_retry RETRY_BACKOFF_MS_def)
  have 4: "attemptAt m4 k = Some a4" "distinct (map fst (deliveryQueue m4))"
    using cycle_failure [OF 3(2,1) f(7,8)] by (simp_all add: m4_def a4_def)
  have a4: "status a4 = Pending" "attemptCount a4 = 4" "nextAttempt a4 = ?t w4 + 120000"
      "lastError a4 = error r4"
    using a3 by (simp_all add: a4_def failedOnce_retry RETRY_BACKOFF_MS_def)
  have 5: "attemptAt m5 k = Some a5"
    using cycle_failure [OF 4(2,1) f(9,10)] by (simp_all add: m5_def a5_def)
  have a5: "status a5 = Failed" "attemptCount a5 = 5" "lastAttempt a5 = ?t w5"
      "lastError a5 = error r5"
    using a4 by (simp_all add: a5_def failedOnce_final)
  have d: "drainCycles net [w1] m = m1" "drainCycles net [w1, w2] m = m2"
      "drainCycles net [w1, w2, w3] m = m3" "drainCycles net [w1, w2, w3, w4] m = m4"
      "drainCycles net [w1, w2, w3, w4, w5] m = m5"
    by (simp_all add: m1_def m2_def m3_def m4_def m5_def)
  have t: "attemptAt (drainCycles net ([w1, w2, w3, w4, w5] @ ws) m) k = Some a5
          \<or> attemptAt (drainCycles net ([w1, w2, w3, w4, w5] @ ws) m) k = None" for ws
    using drainCycles_terminal [of m5 k a5 net ws] 5 a5(1)
    by (simp only: drainCycles_append d) simp
  have n: "cyclePush net (drainCycles net ([w1, w2, w3, w4, w5] @ ws) m) w k = None" for ws w
    using drainCycles_no_push [of m5 k a5 net ws w] 5 a5(1)
    by (simp only: drainCycles_append d) simp
  have "attemptAt (drainCycles net [w1] m) k = Some a1"
       "attemptAt (drainCycles net [w1, w2] m) k = Some a2"
       "attemptAt (drainCycles net [w1, w2, w3] m) k = Some a3"
       "attemptAt (drainCycles net [w1, w2, w3, w4] m) k = Some a4"
       "attemptAt (drainCycles net [w1, w2, w3, w4, w5] m) k = Some a5"
    using 1(1) 2(1) 3(1) 4(1) 5 by (simp_all only: d)
  then show ?thesis
    using a1 a2 a3 a4 a5 t n by blast
qed

text \<open>
  The ladder on a network that works: the event is delivered to the first peer in the
  first cycle, and the pushes to the second fail with 500 twice and then with 503.
\<close>

lemmas drain_defs =
  processDeliveryQueue_def queueForDelivery_def targetsOf_def
  queueOne_def deliveryKey_def has_def Let_def
  deliverOne_def pushToInstance_def discoverInstance_def pushPost_def recordOutcome_def
  trustsInstance_def createFederationConfig_def halfNet_def persistInstance_def
  persistOutboxEvent_def persistDeliveryAttempt_def saveInstance_def saveOutboxEvent_def
  saveDeliveryAttempt_def pruneOne_def setAdd_def MAX_RETRY_ATTEMPTS_def RETRY_BACKOFF_MS_def
  deleteDeliveryAttempt_def toPersistedInstance_def toPersistedAttempt_def showNat_examples

lemma queuedManager_state:
  "deliveryQueue queuedManager =
     [(''https://b.example:https://a.example/outbox/1'',
       freshAttempt 5000 ''https://a.example/outbox/1'' ''https://b.example''),
      (''https://c.example:https://a.example/outbox/1'',
       freshAttempt 5000 ''https://a.example/outbox/1'' ''https://c.example'')]"
  by (simp add: queuedManager_def queueForDelivery_def targetsOf_def queueOne_def deliveryKey_def
        has_def Let_def outboxManager_state freshAttempt_def)

lemma first_cycle:
  "processDeliveryQueue halfNet queuedManager 5000
     = (\<lparr>processed = 2, succeeded = 1, failed = 0\<rparr>, drainedState retryingAttempt, 5000)"
  by (simp add: queuedManager_def drain_defs outboxManager_state drainedState_def
        retryingAttempt_def deliveredAttempt_def peerB_def peerC_def)

lemma second_cycle:
  "processDeliveryQueue halfNet
     (drainedState
        retryingAttempt) 6000
   = (\<lparr>processed = 1, succeeded = 0, failed = 0\<rparr>,
      drainedState
        \<lparr>instanceUri' = ''https://c.example'', eventId = ''https://a.example/outbox/1'',
         attemptCount = 2, lastAttempt = 6000, nextAttempt = 11000, status = Pending,
         lastError = Some ''HTTP 500: Internal Server Error''\<rparr>, 6000)"
  by (simp add: drain_defs drainedState_def deliveredAttempt_def peerB_def peerC_def retryingAttempt_def)

lemma second_push:
  "cyclePush halfNet
     (drainedState
        retryingAttempt) 6000
     ''https://c.example:https://a.example/outbox/1''
   = Some \<lparr>success = False, error = Some ''HTTP 500: Internal Server Error''\<rparr>"
  by (simp add: cyclePush_def pushOf_def drain_defs drainedState_def deliveredAttempt_def
        peerB_def peerC_def retryingAttempt_def)

lemma third_cycle:
  "processDeliveryQueue halfNet
     (drainedState
        \<lparr>instanceUri' = ''https://c.example'', eventId = ''https://a.example/outbox/1'',
         attemptCount = 2, lastAttempt = 6000, nextAttempt = 11000, status = Pending,
         lastError = Some ''HTTP 500: Internal Server Error''\<rparr>) 11000
   = (\<lparr>processed = 1, succeeded = 0, failed = 0\<rparr>,
      drainedState
        \<lparr>instanceUri' = ''https://c.example'', eventId = ''https://a.example/outbox/1'',
         attemptCount = 3, lastAttempt = 11000, nextAttempt = 41000, status = Pending,
         lastError = Some ''HTTP 503: Service Unavailable''\<rparr>, 11000)"
  by (simp add: drain_defs drainedState_def deliveredAttempt_def peerB_def peerC_def)

lemma third_push:
  "cyclePush halfNet
     (drainedState
        \<lparr>instanceUri' = ''https://c.example'', eventId = ''https://a.example/outbox/1'',
         attemptCount = 2, lastAttempt = 6000, nextAttempt = 11000, status = Pending,
         lastError = Some ''HTTP 500: Internal Server Error''\<rparr>) 11000
     ''https://c.example:https://a.example/outbox/1''
   = Some \<lparr>success = False, error = Some ''HTTP 503: Service Unavailable''\<rparr>"
  by (simp add: cyclePush_def pushOf_def drain_defs drainedState_def deliveredAttempt_def
        peerB_def peerC_def)

lemma fourth_cycle:
  "processDeliveryQueue halfNet
     (drainedState
        \<lparr>instanceUri' = ''https://c.example'', eventId = ''https://a.example/outbox/1'',
         attemptCount = 3, lastAttempt = 11000, nextAttempt = 41000, status = Pending,
         lastError = Some ''HTTP 503: Service Unavailable''\<rparr>) 41000
   = (\<lparr>processed = 1, succeeded = 0, failed = 0\<rparr>,
      drainedState
        \<lparr>instanceUri' = ''https://c.example'', eventId = ''https://a.example/outbox/1'',
         attemptCount = 4, lastAttempt = 41000, nextAttempt = 161000, status = Pending,
         lastError = Some ''HTTP 503: Service Unavailable''\<rparr>, 41000)"
  by (simp add: drain_defs drainedState_def deliveredAttempt_def peerB_def peerC_def)

lemma fourth_push:
  "cyclePush halfNet
     (drainedState
        \<lparr>instanceUri' = ''https://c.example'', eventId = ''https://a.example/outbox/1'',
         attemptCount = 3, lastAttempt = 11000, nextAttempt = 41000, status = Pending,
         lastError = Some ''HTTP 503: Service Unavailable''\<rparr>) 41000
     ''https://c.example:https://a.example/outbox/1''
   = Some \<lparr>success = False, error = Some ''HTTP 503: Service Unavailable''\<rparr>"
  by (simp add: cyclePush_def pushOf_def drain_defs drainedState_def deliveredAttempt_def
        peerB_def peerC_def)

lemma fifth_cycle:
  "processDeliveryQueue halfNet
     (drainedState
        \<lparr>instanceUri' = ''https://c.example'', eventId = ''https://a.example/outbox/1'',
         attemptCount = 4, lastAttempt = 41000, nextAttempt = 161000, status = Pending,
         lastError = Some ''HTTP 503: Service Unavailable''\<rparr>) 161000
   = (\<lparr>processed = 1, succeeded = 0, failed = 1\<rparr>,
      drainedState
        \<lparr>instanceUri' = ''https://c.example'', eventId = ''https://a.example/outbox/1'',
         attemptCount = 5, lastAttempt = 161000, nextAttempt = 161000, status = Failed,
         lastError = Some ''HTTP 503: Service Unavailable''\<rparr>, 161000)"
  by (simp add: drain_defs drainedState_def deliveredAttempt_def peerB_def peerC_def)

lemma fifth_push:
  "cyclePush halfNet
     (drainedState
        \<lparr>instanceUri' = ''https://c.example'', eventId = ''https://a.example/outbox/1'',
         attemptCount = 4, lastAttempt = 41000, nextAttempt = 161000, status = Pending,
         lastError = Some ''HTTP 503: Service Unavailable''\<rparr>) 161000
     ''https://c.example:https://a.example/outbox/1''
   = Some \<lparr>success = False, error = Some ''HTTP 503: Service Unavailable''\<rparr>"
  by (simp add: cyclePush_def pushOf_def drain_defs drainedState_def deliveredAttempt_def
        peerB_def peerC_def)

lemma first_push:
  "cyclePush halfNet queuedManager 5000 ''https://c.example:https://a.example/outbox/1''
   = Some \<lparr>success = False, error = Some ''HTTP 500: Internal Server Error''\<rparr>"
  by (simp add: cyclePush_def pushOf_def queuedManager_def drain_defs outboxManager_state)

lemma drained_cycles:
  "drainCycles halfNet [5000] queuedManager = drainedState retryingAttempt"
  "drainCycles halfNet [5000, 6000] queuedManager =
     drainedState
        \<lparr>instanceUri' = ''https://c.example'', eventId = ''https://a.example/outbox/1'',
         attemptCount = 2, lastAttempt = 6000, nextAttempt = 11000, status = Pending,
         lastError = Some ''HTTP 500: Internal Server Error''\<rparr>"
  "drainCycles halfNet [5000, 6000, 11000] queuedManager =
     drainedState
        \<lparr>instanceUri' = ''https://c.example'', eventId = ''https://a.example/outbox/1'',
         attemptCount = 3, lastAttempt = 11000, nextAttempt = 41000, status = Pending,
         lastError = Some ''HTTP 503: Service Unavailable''\<rparr>"
  "drainCycles halfNet [5000, 6000, 11000, 41000] queuedManager =
     drainedState
        \<lparr>instanceUri' = ''https://c.example'', eventId = ''https://a.example/outbox/1'',
         attemptCount = 4, lastAttempt = 41000, nextAttempt = 161000, status = Pending,
         lastError = Some ''HTTP 503: Service Unavailable''\<rparr>"
  "drainCycles halfNet [5000, 6000, 11000, 41000, 161000] queuedManager =
     drainedState
        \<lparr>instanceUri' = ''https://c.example'', eventId = ''https://a.example/outbox/1'',
         attemptCount = 5, lastAttempt = 161000, nextAttempt = 161000, status = Failed,
         lastError = Some ''HTTP 503: Service Unavailable''\<rparr>"
  by (simp_all add: first_cycle second_cycle third_cycle fourth_cycle fifth_cycle)

theorem retry_ladder_witness:
  "distinct (map fst (deliveryQueue queuedManager))
   \<and> attemptAt queuedManager ''https://c.example:https://a.example/outbox/1''
       = Some (freshAttempt 5000 ''https://a.example/outbox/1'' ''https://c.example'')
   \<and> failingCycles halfNet ''https://c.example:https://a.example/outbox/1''
         [(5000, \<lparr>success = False, error = Some ''HTTP 500: Internal Server Error''\<rparr>),
          (6000, \<lparr>success = False, error = Some ''HTTP 500: Internal Server Error''\<rparr>),
          (11000, \<lparr>success = False, error = Some ''HTTP 503: Service Unavailable''\<rparr>),
          (41000, \<lparr>success = False, error = Some ''HTTP 503: Service Unavailable''\<rparr>),
          (161000, \<lparr>success = False, error = Some ''HTTP 503: Service Unavailable''\<rparr>)]
         queuedManager
   \<and> attemptAt (drainCycles halfNet [5000, 6000, 11000, 41000, 161000] queuedManager)
         ''https://b.example:https://a.example/outbox/1'' = Some deliveredAttempt
   \<and> (\<exists>a1 a4 a5.
         attemptAt (drainCycles halfNet [5000] queuedManager)
           ''https://c.example:https://a.example/outbox/1'' = Some a1
         \<and> status a1 = Pending \<and> nextAttempt a1 = 6000
         \<and> lastError a1 = Some ''HTTP 500: Internal Server Error''
         \<and> attemptAt (drainCycles halfNet [5000, 6000, 11000, 41000] queuedManager)
           ''https://c.example:https://a.example/outbox/1'' = Some a4
         \<and> status a4 = Pending \<and> nextAttempt a4 = 161000
         \<and> attemptAt (drainCycles halfNet [5000, 6000, 11000, 41000, 161000] queuedManager)
           ''https://c.example:https://a.example/outbox/1'' = Some a5
         \<and> status a5 = Failed \<and> attemptCount a5 = 5
         \<and> lastError a5 = Some ''HTTP 503: Service Unavailable'')"
proof -
  let ?k = "''https://c.example:https://a.example/outbox/1''"
  let ?a = "freshAttempt 5000 ''https://a.example/outbox/1'' ''https://c.example''"
  let ?r500 = "\<lparr>success = False, error = Some ''HTTP 500: Internal Server Error''\<rparr>"
  let ?r503 = "\<lparr>success = False, error = Some ''HTTP 503: Service Unavailable''\<rparr>"
  have d: "distinct (map fst (deliveryQueue queuedManager))"
    by (simp add: queuedManager_state)
  have a: "attemptAt queuedManager ?k = Some ?a"
    by (simp add: attemptAt_def queuedManager_state)
  have c: "attemptCount ?a = 0"
    by (simp add: freshAttempt_def)
  have f: "failingCycles halfNet ?k
         [(5000, ?r500), (6000, ?r500), (11000, ?r503), (41000, ?r503), (161000, ?r503)]
         queuedManager"
    by (simp add: first_push first_cycle second_push second_cycle third_push third_cycle
          fourth_push fourth_cycle fifth_push)
  have b: "attemptAt (drainCycles halfNet [5000, 6000, 11000, 41000, 161000] queuedManager)
         ''https://b.example:https://a.example/outbox/1'' = Some deliveredAttempt"
    by (simp only: drained_cycles) (simp add: attemptAt_def drainedState_def)
  have n: "clock halfNet w = w" for w
    by (simp add: halfNet_def)
  show ?thesis
    using retry_ladder [OF d a c f] d a f b
    unfolding n by simp blast
qed

subsection \<open>Restart from the store\<close>



lemma fold_loadInstance:
  "knownInstances (fold loadInstance ps m)
     = fold (\<lambda>p. AList.update (uri p) (fromPersistedInstance p)) ps (knownInstances m)
   \<and> outboxQueue (fold loadInstance ps m) = outboxQueue m
   \<and> deliveryQueue (fold loadInstance ps m) = deliveryQueue m"
  by (induction ps arbitrary: m) (simp_all add: loadInstance_def Let_def fromPersistedInstance_def)

lemma fold_loadOutboxEvent:
  "outboxQueue (fold loadOutboxEvent ps m)
     = fold (\<lambda>p. AList.update (p_id p) (fromPersistedOutbox p)) ps (outboxQueue m)
   \<and> knownInstances (fold loadOutboxEvent ps m) = knownInstances m
   \<and> deliveryQueue (fold loadOutboxEvent ps m) = deliveryQueue m"
  by (induction ps arbitrary: m) (simp_all add: loadOutboxEvent_def fromPersistedOutbox_def)

lemma fold_loadDelivery:
  "deliveryQueue (fold loadDelivery ps m)
     = fold (\<lambda>p. AList.update (key p) (fromPersistedAttempt p)) ps (deliveryQueue m)
   \<and> knownInstances (fold loadDelivery ps m) = knownInstances m
   \<and> outboxQueue (fold loadDelivery ps m) = outboxQueue m"
  by (induction ps arbitrary: m) (simp_all add: loadDelivery_def fromPersistedAttempt_def)

text \<open>
  What the constructor builds from the reads of a store: each map is filled from one
  read, in the order of what the read returns.
\<close>

lemma loadFrom_maps:
  "knownInstances (loadFrom now st m)
     = fold (\<lambda>p. AList.update (uri p) (fromPersistedInstance p)) (port_getInstances st)
         (knownInstances m)"
  "outboxQueue (loadFrom now st m)
     = fold (\<lambda>p. AList.update (p_id p) (fromPersistedOutbox p))
         (port_getOutboxEvents st (Some 1000) None) (outboxQueue m)"
  "deliveryQueue (loadFrom now st m)
     = fold (\<lambda>p. AList.update (key p) (fromPersistedAttempt p))
         (port_getPendingDeliveries st (now + 86400000)) (deliveryQueue m)"
  by (simp_all add: loadFrom_def Let_def fold_loadInstance fold_loadOutboxEvent fold_loadDelivery)


text \<open>
  The constructor of the source over a \<^verbatim>\<open>MemoryFederationStorage\<close> answers the three
  queries as the manager built from the reads of that store does.
\<close>

lemma newFederationManager_reads:
  "getKnownInstances (newFederationManager now cfg (Some s))
     = getKnownInstances (constructedOver now cfg (memoryReads s))"
  "getOutboxEvents since limit (newFederationManager now cfg (Some s))
     = getOutboxEvents since limit (constructedOver now cfg (memoryReads s))"
  "getDeliveryQueueStatus (newFederationManager now cfg (Some s))
     = getDeliveryQueueStatus (constructedOver now cfg (memoryReads s))"
  by (simp_all add: getKnownInstances_def getOutboxEvents_def getDeliveryQueueStatus_def
        newFederationManager_def loadFromStorage_def constructedOver_def loadFrom_maps)





lemma drainedManager_eq: "drainedManager = drainedState retryingAttempt"
  by (simp only: drainedManager_def drained_cycles)

lemmas reads_defs =
  memoryReads_def getInstances_def storeGetOutboxEvents_def getPendingDeliveries_def slice0_def
  toPersistedInstance_def toPersistedAttempt_def fromPersistedInstance_def Let_def




text \<open>
  The hypotheses on the reads hold of every \<^verbatim>\<open>MemoryFederationStorage\<close> that the saves
  and deletes built.
\<close>

lemma set_delete_subset: "(k, a) \<in> set (AList.delete k' q) \<Longrightarrow> (k, a) \<in> set q"
  by (induction q) (auto split: if_splits)

lemma storeKeyed_steps:
  "storeKeyed emptyStorage"
  "storeKeyed s \<Longrightarrow> storeKeyed (saveInstance i s)"
  "storeKeyed s \<Longrightarrow> storeKeyed (saveOutboxEvent e s)"
  "storeKeyed s \<Longrightarrow> storeKeyed (saveDeliveryAttempt a s)"
  "storeKeyed s \<Longrightarrow> storeKeyed (deleteOutboxEvent k s)"
  "storeKeyed s \<Longrightarrow> storeKeyed (deleteDeliveryAttempt k s)"
  by (auto simp: storeKeyed_def emptyStorage_def saveInstance_def saveOutboxEvent_def
        saveDeliveryAttempt_def deleteOutboxEvent_def deleteDeliveryAttempt_def distinct_update
        distinct_delete dest: set_update_cases set_delete_subset)

lemma keyed_values:
  assumes "distinct (map fst xs)" and "\<forall>(k, v) \<in> set xs. g v = k"
  shows "distinct (map g (map snd xs))"
proof -
  have "map g (map snd xs) = map fst xs"
    using assms(2) by (induction xs) auto
  then show ?thesis using assms(1) by (simp only:)
qed

lemma distinct_map_sort_key: "distinct (map g xs) \<Longrightarrow> distinct (map g (sort_key h xs))"
  by (simp add: distinct_map)

lemma distinct_map_take: "distinct (map g xs) \<Longrightarrow> distinct (map g (take n xs))"
  by (simp add: take_map [symmetric])

lemma memoryReads_contract:
  assumes "storeKeyed s"
  shows "distinct (map uri (port_getInstances (memoryReads s)))"
    and "distinct (map p_id (port_getOutboxEvents (memoryReads s) (Some 1000) None))"
    and "distinct (map key (port_getPendingDeliveries (memoryReads s) t))"
    and "\<forall>d \<in> set (port_getPendingDeliveries (memoryReads s) t). status d = Pending"
proof -
  show "distinct (map uri (port_getInstances (memoryReads s)))"
    using assms keyed_values [of "instances s" uri]
    by (simp add: memoryReads_def getInstances_def storeKeyed_def)
  have "distinct (map p_id (map snd (outbox' s)))"
    using assms keyed_values [of "outbox' s" p_id] by (simp add: storeKeyed_def)
  then show "distinct (map p_id (port_getOutboxEvents (memoryReads s) (Some 1000) None))"
    by (simp add: memoryReads_def storeGetOutboxEvents_def slice0_def distinct_map_take
          distinct_map_sort_key)
  have "distinct (map key (map snd (deliveryQueue' s)))"
    using assms keyed_values [of "deliveryQueue' s" key] by (simp add: storeKeyed_def)
  then have "distinct (map key (filter (\<lambda>a. status a = Pending \<and> nextAttempt a \<le> t)
                                  (map snd (deliveryQueue' s))))"
    by (rule distinct_map_filter)
  then show "distinct (map key (port_getPendingDeliveries (memoryReads s) t))"
    by (simp add: memoryReads_def getPendingDeliveries_def distinct_map_sort_key)
  show "\<forall>d \<in> set (port_getPendingDeliveries (memoryReads s) t). status d = Pending"
    by (simp add: memoryReads_def getPendingDeliveries_def)
qed

text \<open>
  The store does not always hold the instances of the manager: an error of a later
  discovery is recorded on the instance that the manager holds and is not saved, so the
  manager constructed anew over the store which that manager kept does not return it.
\<close>

lemma unsaved_discovery_error:
  "getKnownInstances rediscoveredManager
     = [peerB\<lparr>instLastError := Some ''fetch failed''\<rparr>, peerC]"
  "storage rediscoveredManager = storage drainedManager"
  "getKnownInstances (newFederationManager 8000
        (createFederationConfig ''https://a.example'' True Open (Some ''key-a''))
        (storage rediscoveredManager) :: (string, int) FederationManager)
     = [peerB, peerC]"
  by (simp_all add: rediscoveredManager_def discoverInstance_def offlineNet_def
        drainedManager_eq drainedState_def getKnownInstances_def newFederationManager_def
        loadFromStorage_def loadFrom_def reads_defs loadInstance_def loadOutboxEvent_def
        loadDelivery_def createFederationConfig_def peerB_def peerC_def)


end
